theory Spec2Isabelle
  imports Complex_Main "HOL-Library.List_Lexorder" "HOL-Library.Char_ord"
begin

section \<open>Data model\<close>

text \<open>
  The tables of the Prisma schema that the play, redemption and license code touches.
  Identifiers are the \<^verbatim>\<open>TEXT\<close> primary keys, kept as strings; a \<^verbatim>\<open>DECIMAL\<close>
  column holds a rational; \<^verbatim>\<open>INTEGER\<close> columns are integers. A nullable column is
  an option. A table is the list of its rows in storage order. A character of a
  string stands for a UTF-16 code unit below 256.
\<close>

record user =
  user_id :: string
  is_influencer :: bool
  total_scratchs :: int
  total_wins :: int
  total_losses :: int

record wallet =
  wallet_id :: string
  wallet_userId :: string
  balance :: rat

record scratchCard =
  sc_id :: string
  price :: rat
  sc_is_active :: bool
  sc_deleted :: bool
  target_rtp :: rat
  current_rtp :: rat
  total_revenue :: rat
  total_payouts :: rat
  total_games_played :: int

record prize =
  prize_id :: string
  prize_scratchCardId :: string
  prize_name :: string
  prize_kind :: string
  prize_value :: "rat option"
  product_name :: "string option"
  redemption_value :: "rat option"
  probability :: rat
  prize_is_active :: bool

record game =
  game_id :: string
  game_userId :: string
  game_scratchCardId :: string
  game_prizeId :: "string option"
  is_winner :: bool
  amount_won :: rat
  game_prize_type :: "string option"
  redemption_choice :: bool
  game_status :: string

record license =
  license_id :: string
  credits :: int
  credits_used :: int
  credits_value :: rat
  ggr_percentage :: rat
  total_earnings :: rat
  license_is_active :: bool

record usageLicense =
  usage_userId :: string
  usage_licenseId :: string
  usage_scratchCardId :: string
  usage_credits_used :: int

record db =
  users :: "user list"
  wallets :: "wallet list"
  scratchCards :: "scratchCard list"
  prizes :: "prize list"
  games :: "game list"
  licenses :: "license list"
  usageLicenses :: "usageLicense list"

text \<open>
  Every \<^verbatim>\<open>throw new Error(message)\<close> of the services is one constructor, named after
  its message. \<open>RecordNotFound\<close> is what Prisma's \<^verbatim>\<open>update\<close> raises when no row
  matches its \<^verbatim>\<open>where\<close>.
\<close>

datatype error =
    UserNotFound
  | WalletNotFound
  | ScratchCardNotFoundOrInactive
  | NoLicenseFound
  | LicenseUnavailable string
  | InsufficientFunds
  | GameNotEligible
  | NotProductPrize
  | AlreadyRedeemed
  | InvalidChoice
  | RedemptionValueUnavailable
  | RecordNotFound
  | ScratchCardNotFound
  | PrizeNotFound
  | InvalidPrizeName
  | InvalidPrizeType
  | InvalidProbability
  | InvalidMoneyValue
  | InvalidProductName
  | InvalidRedemptionValue
  | NoPrizes
  | TooManyPrizes
  | ProbabilitySumExceeds100

section \<open>JavaScript numbers\<close>

text \<open>
  A JavaScript number is a binary64 double: a rational with 53 significant bits.
  \<open>double_of x\<close> is the double nearest to \<open>x\<close>, ties going to the even significand;
  it is what \<^verbatim>\<open>Number(d)\<close> gives for a decimal \<open>d\<close> and what a numeric literal
  denotes. \<open>bit_length k\<close> is the number of binary digits of a positive integer,
  \<open>binade x\<close> the exponent \<open>e\<close> with \<open>2 powi e \<le> x < 2 powi (e + 1)\<close> for positive
  \<open>x\<close>. The exponent is not bounded: the amounts of the store and what the code
  computes from them stay inside the normal range of a double, so overflow,
  subnormal numbers and NaN do not arise.
\<close>

function bit_length :: "int \<Rightarrow> int" where
  "bit_length k = (if k \<le> 0 then 0 else 1 + bit_length (k div 2))"
  by pat_completeness auto
termination
  by (relation "measure nat") auto

declare bit_length.simps [simp del]

definition binade :: "rat \<Rightarrow> int" where
  "binade x =
     (let (a, b) = quotient_of x;
          e0 = bit_length a - bit_length b
      in if 2 powi e0 \<le> x then e0 else e0 - 1)"

definition round_half_even :: "rat \<Rightarrow> int" where
  "round_half_even q =
     (let f = \<lfloor>q\<rfloor>; d = q - of_int f
      in if d < 1 / 2 then f
         else if 1 / 2 < d then f + 1
         else if even f then f else f + 1)"

definition double_of :: "rat \<Rightarrow> rat" where
  "double_of x =
     (if x = 0 then 0
      else let u = 2 powi (binade \<bar>x\<bar> - 52)
           in sgn x * of_int (round_half_even (\<bar>x\<bar> / u)) * u)"

text \<open>
  JavaScript's \<^verbatim>\<open>+\<close>, \<^verbatim>\<open>*\<close> and \<^verbatim>\<open>/\<close> on two doubles: the exact result, rounded
  to the nearest double.
\<close>

definition fadd :: "rat \<Rightarrow> rat \<Rightarrow> rat" where
  "fadd a b = double_of (a + b)"

definition fmul :: "rat \<Rightarrow> rat \<Rightarrow> rat" where
  "fmul a b = double_of (a * b)"

definition fdiv :: "rat \<Rightarrow> rat \<Rightarrow> rat" where
  "fdiv a b = double_of (a / b)"

text \<open>
  \<^verbatim>\<open>Number(x)\<close> of a nullable decimal column that only requests set (a prize
  value, a redemption value), where the code tests the sign of the number and hands
  the number back to the store: \<^verbatim>\<open>Number(null)\<close> is 0, and the amount keeps its own
  value, since such a column holds the decimal written for a JavaScript number,
  which reads back as that number and is written again as the same decimal, and a
  double has the sign of its decimal. The same holds of \<^verbatim>\<open>Number(price)\<close> handed
  to a decrement or increment. Where the code computes with a number or compares
  two numbers, the operand is \<open>double_of\<close> of the column's value. A computed number
  written to a \<^verbatim>\<open>DECIMAL\<close> column is held with the value of the double: the decimal
  written for it reads back, through \<^verbatim>\<open>Number\<close>, as that same double, and the code
  reads such a column in no other way.
\<close>

definition Number_of :: "rat option \<Rightarrow> rat" where
  "Number_of v = (case v of None \<Rightarrow> 0 | Some x \<Rightarrow> x)"

section \<open>Outcome resolver\<close>

record game_result =
  isWinner :: bool
  won_prize :: "prize option"

text \<open>
  The \<^verbatim>\<open>for (const prize of prizes)\<close> loop of \<^verbatim>\<open>determineGameResult\<close>:
  \<open>cum\<close> is \<^verbatim>\<open>cumulativeProbability\<close> before the iteration, \<open>r\<close> is
  \<^verbatim>\<open>randomNumber\<close>, \<open>m\<close> is \<^verbatim>\<open>rtpMultiplier\<close>.
\<close>

fun walk_prizes :: "rat \<Rightarrow> rat \<Rightarrow> rat \<Rightarrow> prize list \<Rightarrow> prize option" where
  "walk_prizes r m cum [] = None"
| "walk_prizes r m cum (p # ps) =
     (let adjustedProbability = fmul (double_of (probability p)) m;
          cum' = fadd cum adjustedProbability
      in if r \<le> cum' then Some p else walk_prizes r m cum' ps)"

text \<open>
  \<^verbatim>\<open>determineGameResult(scratchCard, user = null)\<close>. The card's included prize list
  is the argument \<open>ps\<close> (an absent list counts as empty, as \<^verbatim>\<open>!prizes\<close> does); the
  value of \<^verbatim>\<open>Math.random() * 100\<close> is the argument \<open>r\<close>. The literals
  \<^verbatim>\<open>1.2\<close> and \<^verbatim>\<open>0.8\<close> are the doubles nearest to 12/10 and 8/10.
\<close>

definition determineGameResult ::
  "scratchCard \<Rightarrow> prize list \<Rightarrow> user option \<Rightarrow> rat \<Rightarrow> game_result" where
  "determineGameResult sc ps usr r =
     (let currentRtp = double_of (current_rtp sc);
          targetRtp = double_of (target_rtp sc)
      in if ps = [] then \<lparr>isWinner = False, won_prize = None\<rparr>
         else
           let m0 = (if currentRtp < targetRtp then double_of (12 / 10)
                     else if currentRtp > targetRtp then double_of (8 / 10)
                     else 1);
               m = (if (case usr of None \<Rightarrow> False | Some u \<Rightarrow> is_influencer u)
                    then fmul m0 6 else m0)
           in case walk_prizes r m 0 ps of
                Some p \<Rightarrow> \<lparr>isWinner = True, won_prize = Some p\<rparr>
              | None \<Rightarrow> \<lparr>isWinner = False, won_prize = None\<rparr>)"

subsection \<open>The resolver as the specification words it\<close>

text \<open>
  The specification words the algorithm over numbers without saying which. Its
  definitions take the number system as the function \<open>rnd\<close> that brings a literal,
  an operand or the result of an operation into it: \<open>id\<close> for the arithmetic of the
  rationals, \<open>double_of\<close> for JavaScript's.

  The multiplier: 1.2 when the current RTP is below the target, 0.8 when above, else
  1, multiplied by 6 for a privileged player.
\<close>

definition spec_multiplier :: "(rat \<Rightarrow> rat) \<Rightarrow> rat \<Rightarrow> rat \<Rightarrow> bool \<Rightarrow> rat" where
  "spec_multiplier rnd cur tgt privileged =
     (let m = (if cur < tgt then rnd (12 / 10)
               else if cur > tgt then rnd (8 / 10) else 1)
      in if privileged then rnd (m * 6) else m)"

text \<open>
  The cumulative sum after the first \<open>k\<close> prizes: probability times multiplier,
  accumulated prize by prize in list order, from 0.
\<close>

definition spec_cumulative :: "(rat \<Rightarrow> rat) \<Rightarrow> rat \<Rightarrow> prize list \<Rightarrow> nat \<Rightarrow> rat" where
  "spec_cumulative rnd m ps k =
     foldl (\<lambda>acc p. rnd (acc + rnd (rnd (probability p) * m))) 0 (take k ps)"

text \<open>
  No prizes: a loss. Otherwise the first prize whose cumulative sum is at least the
  draw wins; a loss when the sum over all prizes stays below the draw.
\<close>

definition spec_resolver ::
  "(rat \<Rightarrow> rat) \<Rightarrow> rat \<Rightarrow> rat \<Rightarrow> bool \<Rightarrow> prize list \<Rightarrow> rat \<Rightarrow> game_result" where
  "spec_resolver rnd cur tgt privileged ps r =
     (if ps = [] then \<lparr>isWinner = False, won_prize = None\<rparr>
      else case find (\<lambda>k. r \<le> spec_cumulative rnd (spec_multiplier rnd cur tgt privileged) ps (Suc k))
                  [0..<length ps] of
             Some k \<Rightarrow> \<lparr>isWinner = True, won_prize = Some (ps ! k)\<rparr>
           | None \<Rightarrow> \<lparr>isWinner = False, won_prize = None\<rparr>)"

definition is_privileged :: "user option \<Rightarrow> bool" where
  "is_privileged usr = (case usr of None \<Rightarrow> False | Some u \<Rightarrow> is_influencer u)"

section \<open>Store primitives\<close>

text \<open>
  Prisma's \<^verbatim>\<open>update({where, data})\<close> on a table: every row matching \<open>p\<close> is
  rewritten by \<open>f\<close> (with a primary key in \<open>where\<close> that is one row); it raises when
  no row matches.
\<close>

definition update_where :: "('a \<Rightarrow> bool) \<Rightarrow> ('a \<Rightarrow> 'a) \<Rightarrow> 'a list \<Rightarrow> error + 'a list" where
  "update_where p f xs =
     (if list_ex p xs then Inr (map (\<lambda>x. if p x then f x else x) xs)
      else Inl RecordNotFound)"

text \<open>
  \<^verbatim>\<open>prisma.$transaction(async (tx) => ...)\<close>: the body runs on the transaction's
  view \<open>t\<close>, which starts as the committed state; when the body throws, the committed
  state stays as it was, otherwise the view is committed.
\<close>

definition prisma_transaction ::
  "(db \<Rightarrow> error + ('a \<times> db)) \<Rightarrow> db \<Rightarrow> (error + 'a) \<times> db" where
  "prisma_transaction body d =
     (case body d of Inl e \<Rightarrow> (Inl e, d) | Inr (x, t) \<Rightarrow> (Inr x, t))"

section \<open>License service\<close>

text \<open>
  \<^verbatim>\<open>prisma.license.findFirst({orderBy: {id: 'desc'}})\<close>: the row whose id is greatest
  (ids are compared as strings, lexicographically).
\<close>

fun findFirst_id_desc :: "license list \<Rightarrow> license option" where
  "findFirst_id_desc [] = None"
| "findFirst_id_desc (l # ls) =
     (case findFirst_id_desc ls of
        None \<Rightarrow> Some l
      | Some m \<Rightarrow> if license_id l < license_id m then Some m else Some l)"

definition getCurrentLicense :: "db \<Rightarrow> error + license" where
  "getCurrentLicense d =
     (case findFirst_id_desc (licenses d) of
        None \<Rightarrow> Inl NoLicenseFound
      | Some l \<Rightarrow> Inr l)"

text \<open>
  \<^verbatim>\<open>checkLicenseStatus\<close> catches the error of \<^verbatim>\<open>getCurrentLicense\<close> and returns it
  in a \<^verbatim>\<open>{success: false}\<close> object.
\<close>

datatype license_status =
    StatusFailed error
  | StatusOk (st_is_active: bool) (st_has_credits: bool) (st_license: license)

definition checkLicenseStatus :: "db \<Rightarrow> license_status" where
  "checkLicenseStatus d =
     (case getCurrentLicense d of
        Inl e \<Rightarrow> StatusFailed e
      | Inr l \<Rightarrow> StatusOk (license_is_active l) (credits l > 0) l)"

definition editCredits :: "int \<Rightarrow> db \<Rightarrow> error + db" where
  "editCredits newCredits d =
     (case getCurrentLicense d of
        Inl e \<Rightarrow> Inl e
      | Inr lastLicense \<Rightarrow>
          (case update_where (\<lambda>l. license_id l = license_id lastLicense)
                  (\<lambda>l. l\<lparr>credits := newCredits\<rparr>) (licenses d) of
             Inl e \<Rightarrow> Inl e
           | Inr ls \<Rightarrow> Inr (d\<lparr>licenses := ls\<rparr>)))"

definition addEarnings :: "rat \<Rightarrow> db \<Rightarrow> error + db" where
  "addEarnings amount d =
     (case getCurrentLicense d of
        Inl e \<Rightarrow> Inl e
      | Inr lastLicense \<Rightarrow>
          (case update_where (\<lambda>l. license_id l = license_id lastLicense)
                  (\<lambda>l. l\<lparr>total_earnings := total_earnings l + amount\<rparr>) (licenses d) of
             Inl e \<Rightarrow> Inl e
           | Inr ls \<Rightarrow> Inr (d\<lparr>licenses := ls\<rparr>)))"

text \<open>The \<^verbatim>\<open>params\<close> object: a field left \<^verbatim>\<open>undefined\<close> is \<open>None\<close>.\<close>

record license_params =
  lp_credits :: "int option"
  lp_credits_value :: "rat option"
  lp_ggr_percentage :: "rat option"
  lp_is_active :: "bool option"

definition apply_license_params :: "license_params \<Rightarrow> license \<Rightarrow> license" where
  "apply_license_params ps l =
     (let l1 = (case lp_credits ps of None \<Rightarrow> l | Some v \<Rightarrow> l\<lparr>credits := v\<rparr>);
          l2 = (case lp_credits_value ps of None \<Rightarrow> l1 | Some v \<Rightarrow> l1\<lparr>credits_value := v\<rparr>);
          l3 = (case lp_ggr_percentage ps of None \<Rightarrow> l2 | Some v \<Rightarrow> l2\<lparr>ggr_percentage := v\<rparr>)
      in (case lp_is_active ps of None \<Rightarrow> l3 | Some v \<Rightarrow> l3\<lparr>license_is_active := v\<rparr>))"

definition updateLicenseParams :: "license_params \<Rightarrow> db \<Rightarrow> error + db" where
  "updateLicenseParams ps d =
     (case getCurrentLicense d of
        Inl e \<Rightarrow> Inl e
      | Inr lastLicense \<Rightarrow>
          (case update_where (\<lambda>l. license_id l = license_id lastLicense)
                  (apply_license_params ps) (licenses d) of
             Inl e \<Rightarrow> Inl e
           | Inr ls \<Rightarrow> Inr (d\<lparr>licenses := ls\<rparr>)))"

text \<open>
  The three objects \<^verbatim>\<open>hasEnoughCredits\<close> returns: \<^verbatim>\<open>{success: false, message:
  'Licenca inativa', license}\<close>, \<^verbatim>\<open>{success: false, message: 'Creditos insuficientes',
  creditsNeeded, creditsAvailable, license}\<close> and \<^verbatim>\<open>{success: true, creditsNeeded,
  creditsAvailable, license}\<close>.
\<close>

datatype license_check =
    LicenseInactive license
  | InsufficientCredits int int license
  | EnoughCredits int int license

fun chk_success :: "license_check \<Rightarrow> bool" where
  "chk_success (EnoughCredits n a l) = True"
| "chk_success (InsufficientCredits n a l) = False"
| "chk_success (LicenseInactive l) = False"

fun chk_message :: "license_check \<Rightarrow> string" where
  "chk_message (LicenseInactive l) = ''Licenca inativa''"
| "chk_message (InsufficientCredits n a l) = ''Creditos insuficientes''"
| "chk_message (EnoughCredits n a l) = []"

fun chk_license :: "license_check \<Rightarrow> license" where
  "chk_license (LicenseInactive l) = l"
| "chk_license (InsufficientCredits n a l) = l"
| "chk_license (EnoughCredits n a l) = l"

text \<open>
  \<^verbatim>\<open>license.credits_value > 0 ? Math.ceil(Number(amount) /
  Number(license.credits_value)) : 1\<close>: the ceiling of the double quotient of the
  two doubles. The test is on the sign of the decimal, which its double keeps.
\<close>

definition creditsNeeded_for :: "rat \<Rightarrow> license \<Rightarrow> int" where
  "creditsNeeded_for amount l =
     (if credits_value l > 0
      then \<lceil>fdiv (double_of amount) (double_of (credits_value l))\<rceil>
      else 1)"

definition hasEnoughCredits :: "rat \<Rightarrow> db \<Rightarrow> error + license_check" where
  "hasEnoughCredits amount d =
     (case getCurrentLicense d of
        Inl e \<Rightarrow> Inl e
      | Inr l \<Rightarrow>
          if \<not> license_is_active l then Inr (LicenseInactive l)
          else
            let creditsNeeded = creditsNeeded_for amount l
            in if credits l < creditsNeeded
               then Inr (InsufficientCredits creditsNeeded (credits l) l)
               else Inr (EnoughCredits creditsNeeded (credits l) l))"

text \<open>
  The objects \<^verbatim>\<open>consumeCreditsAndAddEarnings\<close> returns: the refusal that wraps a
  failed check, the success object (credits consumed, GGR amount, license as read),
  and the failure made from an error caught around the two writes.
\<close>

datatype consume_result =
    ConsumeRefused license_check
  | Consumed int rat license
  | ConsumeError error

fun cr_success :: "consume_result \<Rightarrow> bool" where
  "cr_success (Consumed n g l) = True"
| "cr_success (ConsumeRefused c) = False"
| "cr_success (ConsumeError e) = False"

text \<open>
  \<^verbatim>\<open>consumeCreditsAndAddEarnings({amount, userId, scratchCardId, tx})\<close>. The check
  goes through \<^verbatim>\<open>this.hasEnoughCredits\<close>, which reads with the module's own client
  \<^verbatim>\<open>prisma\<close>: its state is \<open>g\<close>. The two writes go through
  \<^verbatim>\<open>prismaClient = tx || prisma\<close>: the transaction's view when \<open>tx\<close> is given,
  else \<open>g\<close>. The result carries the new state of the client written to. An error of
  the check is thrown on (it is outside the \<^verbatim>\<open>try\<close>); an error of the update is
  caught and returned.
\<close>

definition consumeCreditsAndAddEarnings ::
  "rat \<Rightarrow> string \<Rightarrow> string \<Rightarrow> db option \<Rightarrow> db \<Rightarrow> error + (consume_result \<times> db)" where
  "consumeCreditsAndAddEarnings amount userId scratchCardId tx g =
     (case hasEnoughCredits amount g of
        Inl e \<Rightarrow> Inl e
      | Inr licenseCheck \<Rightarrow>
          let prismaClient = (case tx of Some t \<Rightarrow> t | None \<Rightarrow> g)
          in (case licenseCheck of
                EnoughCredits creditsToConsume avail lic \<Rightarrow>
                  let ggrAmount = fmul (double_of amount)
                                    (fdiv (double_of (ggr_percentage lic)) 100)
                  in (case update_where (\<lambda>l. license_id l = license_id lic)
                            (\<lambda>l. l\<lparr>credits_used := credits_used l + creditsToConsume,
                                   credits := credits l - creditsToConsume,
                                   total_earnings := total_earnings l + ggrAmount\<rparr>)
                            (licenses prismaClient) of
                        Inl e \<Rightarrow> Inr (ConsumeError e, prismaClient)
                      | Inr ls \<Rightarrow>
                          Inr (Consumed creditsToConsume ggrAmount lic,
                               prismaClient\<lparr>licenses := ls,
                                 usageLicenses := usageLicenses prismaClient @
                                   [\<lparr>usage_userId = userId,
                                     usage_licenseId = license_id lic,
                                     usage_scratchCardId = scratchCardId,
                                     usage_credits_used = creditsToConsume\<rparr>]\<rparr>))
              | _ \<Rightarrow> Inr (ConsumeRefused licenseCheck, prismaClient)))"

section \<open>Playing a scratch card\<close>

text \<open>
  \<^verbatim>\<open>prisma.scratchCard.findUnique({where: {id, is_active: true, deleted_at: null}})\<close>:
  the row of that id, if it is active and not deleted.
\<close>

definition findUnique_active_card :: "string \<Rightarrow> db \<Rightarrow> scratchCard option" where
  "findUnique_active_card scratchCardId d =
     (case find (\<lambda>c. sc_id c = scratchCardId) (scratchCards d) of
        None \<Rightarrow> None
      | Some c \<Rightarrow> if sc_is_active c \<and> \<not> sc_deleted c then Some c else None)"

text \<open>What \<^verbatim>\<open>playScratchCard\<close> holds when it opens its transaction.\<close>

record pending_play =
  pp_user :: user
  pp_wallet :: wallet
  pp_card :: scratchCard
  pp_gameResult :: game_result
  pp_amountWon :: rat
  pp_prizeId :: "string option"
  pp_prizeType :: "string option"

definition wins_money :: "game_result \<Rightarrow> bool" where
  "wins_money gr =
     (isWinner gr \<and> (case won_prize gr of None \<Rightarrow> False | Some p \<Rightarrow> prize_kind p = ''MONEY''))"

text \<open>
  The part of \<^verbatim>\<open>playScratchCard\<close> before the transaction: the reads and checks made
  with the global client on the state \<open>d\<close>, and the outcome drawn with \<open>r\<close>. The
  balance check \<^verbatim>\<open>Number(wallet.balance) < Number(price)\<close> compares the doubles of
  the two decimals.
\<close>

definition play_prechecks :: "string \<Rightarrow> string \<Rightarrow> rat \<Rightarrow> db \<Rightarrow> error + pending_play" where
  "play_prechecks userId scratchCardId r d =
     (case find (\<lambda>u. user_id u = userId) (users d) of
        None \<Rightarrow> Inl UserNotFound
      | Some userWithWallet \<Rightarrow>
          (case filter (\<lambda>w. wallet_userId w = user_id userWithWallet) (wallets d) of
             [] \<Rightarrow> Inl WalletNotFound
           | wallet # _ \<Rightarrow>
               (case findUnique_active_card scratchCardId d of
                  None \<Rightarrow> Inl ScratchCardNotFoundOrInactive
                | Some sc \<Rightarrow>
                    (case hasEnoughCredits (price sc) d of
                       Inl e \<Rightarrow> Inl e
                     | Inr licenseCheck \<Rightarrow>
                         if \<not> chk_success licenseCheck
                         then Inl (LicenseUnavailable (chk_message licenseCheck))
                         else if double_of (balance wallet) < double_of (price sc)
                         then Inl InsufficientFunds
                         else
                           let ps = filter (\<lambda>p. prize_scratchCardId p = sc_id sc \<and> prize_is_active p)
                                      (prizes d);
                               gameResult = determineGameResult sc ps (Some userWithWallet) r;
                               won = (if isWinner gameResult then won_prize gameResult else None)
                           in Inr \<lparr>pp_user = userWithWallet,
                                   pp_wallet = wallet,
                                   pp_card = sc,
                                   pp_gameResult = gameResult,
                                   pp_amountWon =
                                     (case won of
                                        None \<Rightarrow> 0
                                      | Some p \<Rightarrow> if prize_kind p = ''MONEY''
                                                  then Number_of (prize_value p) else 0),
                                   pp_prizeId = map_option prize_id won,
                                   pp_prizeType = map_option prize_kind won\<rparr>))))"

text \<open>
  The callback given to \<^verbatim>\<open>prisma.$transaction\<close>, on the transaction's view \<open>t\<close>;
  \<open>g\<close> is the state the global client reads meanwhile and \<open>gameId\<close> the id the new
  game row gets. The value \<^verbatim>\<open>consumeCreditsAndAddEarnings\<close> returns is dropped, as
  the source drops it; only an error it throws leaves the callback.
\<close>

definition play_tx_body :: "pending_play \<Rightarrow> string \<Rightarrow> db \<Rightarrow> db \<Rightarrow> error + (game \<times> db)" where
  "play_tx_body pp gameId g t =
     (let userId = user_id (pp_user pp);
          scratchCardId = sc_id (pp_card pp);
          cardPrice = price (pp_card pp);
          amountWon = pp_amountWon pp;
          gameResult = pp_gameResult pp
      in case update_where (\<lambda>w. wallet_id w = wallet_id (pp_wallet pp))
                (\<lambda>w. w\<lparr>balance := balance w - cardPrice\<rparr>) (wallets t) of
           Inl e \<Rightarrow> Inl e
         | Inr ws1 \<Rightarrow>
          (case (if wins_money gameResult
                 then update_where (\<lambda>w. wallet_id w = wallet_id (pp_wallet pp))
                        (\<lambda>w. w\<lparr>balance := balance w + amountWon\<rparr>) ws1
                 else Inr ws1) of
             Inl e \<Rightarrow> Inl e
           | Inr ws2 \<Rightarrow>
            (let newGame = \<lparr>game_id = gameId,
                            game_userId = userId,
                            game_scratchCardId = scratchCardId,
                            game_prizeId = pp_prizeId pp,
                            is_winner = isWinner gameResult,
                             amount_won = amountWon,
                            game_prize_type = pp_prizeType pp,
                            redemption_choice = False,
                            game_status = ''COMPLETED''\<rparr>
             in case update_where (\<lambda>u. user_id u = userId)
                       (\<lambda>u. u\<lparr>total_scratchs := total_scratchs u + 1,
                              total_wins := total_wins u + (if isWinner gameResult then 1 else 0),
                              total_losses := total_losses u + (if isWinner gameResult then 0 else 1)\<rparr>)
                       (users t) of
                  Inl e \<Rightarrow> Inl e
                | Inr us \<Rightarrow>
                 (case update_where (\<lambda>c. sc_id c = scratchCardId)
                         (\<lambda>c. c\<lparr>total_revenue := total_revenue c + cardPrice,
                                total_payouts := total_payouts c + amountWon,
                                total_games_played := total_games_played c + 1\<rparr>)
                         (scratchCards t) of
                    Inl e \<Rightarrow> Inl e
                  | Inr cs1 \<Rightarrow>
                   (case (if \<not> is_influencer (pp_user pp)
                          then (case find (\<lambda>c. sc_id c = scratchCardId) cs1 of
                                  None \<Rightarrow> Inl RecordNotFound
                                | Some updatedStats \<Rightarrow>
                                    update_where (\<lambda>c. sc_id c = scratchCardId)
                                      (\<lambda>c. c\<lparr>current_rtp :=
                                          (if double_of (total_revenue updatedStats) > 0
                                           then fmul (fdiv (double_of (total_payouts updatedStats))
                                                          (double_of (total_revenue updatedStats)))
                                                  100
                                           else 0)\<rparr>) cs1)
                          else Inr cs1) of
                      Inl e \<Rightarrow> Inl e
                    | Inr cs2 \<Rightarrow>
                     (case consumeCreditsAndAddEarnings cardPrice userId scratchCardId
                             (Some (t\<lparr>wallets := ws2, games := games t @ [newGame],
                                      users := us, scratchCards := cs2\<rparr>)) g of
                        Inl e \<Rightarrow> Inl e
                      | Inr (consumed, t') \<Rightarrow> Inr (newGame, t')))))))"

text \<open>
  The transaction of a play, run on the committed state \<open>d\<close>, which is also what the
  global client reads while it runs.
\<close>

definition play_transaction :: "pending_play \<Rightarrow> string \<Rightarrow> db \<Rightarrow> (error + game) \<times> db" where
  "play_transaction pp gameId d = prisma_transaction (play_tx_body pp gameId d) d"

text \<open>
  \<^verbatim>\<open>playScratchCard(userId, scratchCardId)\<close> run with nothing else touching the
  store between its checks and its transaction. The result is what the caller gets
  paired with the committed state afterwards.
\<close>

definition playScratchCard ::
  "string \<Rightarrow> string \<Rightarrow> rat \<Rightarrow> string \<Rightarrow> db \<Rightarrow> (error + game) \<times> db" where
  "playScratchCard userId scratchCardId r gameId d =
     (case play_prechecks userId scratchCardId r d of
        Inl e \<Rightarrow> (Inl e, d)
      | Inr pp \<Rightarrow> play_transaction pp gameId d)"

section \<open>Choosing the redemption of a product prize\<close>

text \<open>The \<^verbatim>\<open>include: {prize: true}\<close> of a game row.\<close>

definition prize_of_game :: "game \<Rightarrow> db \<Rightarrow> prize option" where
  "prize_of_game gm d =
     (case game_prizeId gm of
        None \<Rightarrow> None
      | Some pid \<Rightarrow> find (\<lambda>p. prize_id p = pid) (prizes d))"

definition choose_money :: "rat \<Rightarrow> game \<Rightarrow> game" where
  "choose_money redemptionValue gm =
     gm\<lparr>redemption_choice := True, amount_won := redemptionValue,
        game_prize_type := Some ''REDEMPTION''\<rparr>"

definition choose_product :: "game \<Rightarrow> game" where
  "choose_product gm =
     gm\<lparr>redemption_choice := False, game_prize_type := Some ''PRODUCT'',
        game_status := ''PENDING_DELIVERY''\<rparr>"

text \<open>
  The callback of \<^verbatim>\<open>chooseRedemption(userId, gameId, choice)\<close> on the transaction's
  view \<open>t\<close>. The returned game is the updated row.
\<close>

definition chooseRedemption_body ::
  "string \<Rightarrow> string \<Rightarrow> string \<Rightarrow> db \<Rightarrow> error + (game \<times> db)" where
  "chooseRedemption_body userId gameId choice t =
     (case find (\<lambda>gm. game_id gm = gameId \<and> game_userId gm = userId \<and> is_winner gm
                      \<and> game_status gm = ''COMPLETED'') (games t) of
        None \<Rightarrow> Inl GameNotEligible
      | Some gm \<Rightarrow>
          (case prize_of_game gm t of
             None \<Rightarrow> Inl NotProductPrize
           | Some pz \<Rightarrow>
               if prize_kind pz \<noteq> ''PRODUCT'' then Inl NotProductPrize
               else if redemption_choice gm \<noteq> False then Inl AlreadyRedeemed
               else
                 (case filter (\<lambda>w. wallet_userId w = game_userId gm) (wallets t) of
                    [] \<Rightarrow> Inl WalletNotFound
                  | wallet # _ \<Rightarrow>
                      if choice \<noteq> ''product'' \<and> choice \<noteq> ''money'' then Inl InvalidChoice
                      else if choice = ''money'' then
                        (let redemptionValue = Number_of (redemption_value pz)
                         in if redemptionValue = 0 \<or> redemptionValue \<le> 0
                            then Inl RedemptionValueUnavailable
                            else
                              (case update_where (\<lambda>w. wallet_id w = wallet_id wallet)
                                      (\<lambda>w. w\<lparr>balance := balance w + redemptionValue\<rparr>)
                                      (wallets t) of
                                 Inl e \<Rightarrow> Inl e
                               | Inr ws \<Rightarrow>
                                  (case update_where (\<lambda>x. game_id x = gameId)
                                          (choose_money redemptionValue) (games t) of
                                     Inl e \<Rightarrow> Inl e
                                   | Inr gs \<Rightarrow>
                                      (case update_where
                                              (\<lambda>c. sc_id c = game_scratchCardId gm)
                                              (\<lambda>c. c\<lparr>total_payouts :=
                                                        total_payouts c + redemptionValue\<rparr>)
                                              (scratchCards t) of
                                         Inl e \<Rightarrow> Inl e
                                       | Inr cs \<Rightarrow>
                                           Inr (choose_money redemptionValue gm,
                                                t\<lparr>wallets := ws, games := gs,
                                                  scratchCards := cs\<rparr>)))))
                      else
                        (case update_where (\<lambda>x. game_id x = gameId) choose_product (games t) of
                           Inl e \<Rightarrow> Inl e
                         | Inr gs \<Rightarrow> Inr (choose_product gm, t\<lparr>games := gs\<rparr>)))))"

definition chooseRedemption ::
  "string \<Rightarrow> string \<Rightarrow> string \<Rightarrow> db \<Rightarrow> (error + game) \<times> db" where
  "chooseRedemption userId gameId choice d =
     prisma_transaction (chooseRedemption_body userId gameId choice) d"

text \<open>
  A run of further \<^verbatim>\<open>chooseRedemption\<close> calls for one player and one game, each
  with its own choice, each on the state the previous one left.
\<close>

fun chooseRedemption_calls :: "string \<Rightarrow> string \<Rightarrow> string list \<Rightarrow> db \<Rightarrow> db" where
  "chooseRedemption_calls userId gameId [] d = d"
| "chooseRedemption_calls userId gameId (choice # choices) d =
     chooseRedemption_calls userId gameId choices (snd (chooseRedemption userId gameId choice d))"

section \<open>Administration of prizes\<close>

text \<open>
  The prize object of a request body. \<^verbatim>\<open>description\<close> and \<^verbatim>\<open>image_url\<close> are
  taken as absent, so the check of the image URL does not arise.
\<close>

record prize_data =
  pd_name :: string
  pd_kind :: string
  pd_value :: "rat option"
  pd_product_name :: "string option"
  pd_redemption_value :: "rat option"
  pd_probability :: rat
  pd_is_active :: "bool option"

text \<open>
  The white space \<^verbatim>\<open>String.prototype.trim\<close> strips, among the code units below
  256: space, tab, line feed, vertical tab, form feed, carriage return and the
  no-break space U+00A0.
\<close>

definition is_space :: "char \<Rightarrow> bool" where
  "is_space c =
     (c \<in> set [CHR '' '', CHR 0x09, CHR 0x0A, CHR 0x0B, CHR 0x0C, CHR 0x0D, CHR 0xA0])"

definition trim :: "string \<Rightarrow> string" where
  "trim s = rev (dropWhile is_space (rev (dropWhile is_space s)))"

definition validatePrizeType :: "string \<Rightarrow> error + unit" where
  "validatePrizeType k =
     (if k = ''MONEY'' \<or> k = ''PRODUCT'' then Inr () else Inl InvalidPrizeType)"

definition validateProbability :: "rat \<Rightarrow> error + unit" where
  "validateProbability numProb =
     (if numProb < 0 \<or> numProb > 100 then Inl InvalidProbability else Inr ())"

definition validatePrizeData :: "prize_data \<Rightarrow> error + unit" where
  "validatePrizeData pd =
     (if length (trim (pd_name pd)) < 2 then Inl InvalidPrizeName
      else case validatePrizeType (pd_kind pd) of
        Inl e \<Rightarrow> Inl e
      | Inr _ \<Rightarrow>
        (case validateProbability (pd_probability pd) of
           Inl e \<Rightarrow> Inl e
         | Inr _ \<Rightarrow>
             if pd_kind pd = ''MONEY'' then
               (if Number_of (pd_value pd) \<le> 0 then Inl InvalidMoneyValue else Inr ())
             else if pd_kind pd = ''PRODUCT'' then
               (if length (trim (case pd_product_name pd of None \<Rightarrow> [] | Some n \<Rightarrow> n)) < 2
                then Inl InvalidProductName
                else if Number_of (pd_redemption_value pd) \<le> 0
                then Inl InvalidRedemptionValue
                else Inr ())
             else Inr ()))"

text \<open>
  The loop of \<^verbatim>\<open>validatePrizesData\<close>: each prize is validated and
  \<^verbatim>\<open>totalProbability += Number(prize.probability)\<close> adds its probability as a
  double.
\<close>

fun validate_each :: "rat \<Rightarrow> prize_data list \<Rightarrow> error + rat" where
  "validate_each tot [] = Inr tot"
| "validate_each tot (pd # pds) =
     (case validatePrizeData pd of
        Inl e \<Rightarrow> Inl e
      | Inr _ \<Rightarrow> validate_each (fadd tot (double_of (pd_probability pd))) pds)"

definition validatePrizesData :: "prize_data list \<Rightarrow> error + unit" where
  "validatePrizesData pds =
     (if pds = [] then Inl NoPrizes
      else if length pds > 20 then Inl TooManyPrizes
      else case validate_each 0 pds of
        Inl e \<Rightarrow> Inl e
      | Inr totalProbability \<Rightarrow>
          if totalProbability > 100 then Inl ProbabilitySumExceeds100 else Inr ())"

text \<open>
  The row \<^verbatim>\<open>prisma.prize.create\<close> stores for a prize object: a falsy \<^verbatim>\<open>value\<close> or
  \<^verbatim>\<open>redemption_value\<close> (absent or 0) is stored as null, an absent
  \<^verbatim>\<open>is_active\<close> as true.
\<close>

definition truthy :: "rat option \<Rightarrow> rat option" where
  "truthy v = (case v of None \<Rightarrow> None | Some x \<Rightarrow> if x = 0 then None else Some x)"

definition prize_row :: "string \<Rightarrow> string \<Rightarrow> prize_data \<Rightarrow> prize" where
  "prize_row newId scratchCardId pd =
     \<lparr>prize_id = newId,
      prize_scratchCardId = scratchCardId,
      prize_name = pd_name pd,
      prize_kind = pd_kind pd,
      prize_value = truthy (pd_value pd),
      product_name = (case pd_product_name pd of None \<Rightarrow> None
                      | Some n \<Rightarrow> if n = [] then None else Some n),
      redemption_value = truthy (pd_redemption_value pd),
      probability = pd_probability pd,
      prize_is_active = (case pd_is_active pd of None \<Rightarrow> True | Some b \<Rightarrow> b)\<rparr>"

text \<open>
  \<^verbatim>\<open>createScratchCardWithPrizes\<close>, from the point where the card's own data has passed
  \<^verbatim>\<open>validateScratchCardData\<close>: the prizes are validated, then the card \<open>sc\<close> (with
  its fresh id and zeroed statistics) and one row per prize are stored; \<open>newId k\<close> is
  the id given to the \<open>k\<close>-th prize.
\<close>

definition createScratchCardWithPrizes ::
  "scratchCard \<Rightarrow> prize_data list \<Rightarrow> (nat \<Rightarrow> string) \<Rightarrow> db \<Rightarrow> (error + scratchCard) \<times> db" where
  "createScratchCardWithPrizes sc pds newId d =
     (case validatePrizesData pds of
        Inl e \<Rightarrow> (Inl e, d)
      | Inr _ \<Rightarrow>
          (Inr sc,
           d\<lparr>scratchCards := scratchCards d @ [sc],
             prizes := prizes d @
               map (\<lambda>(k, pd). prize_row (newId k) (sc_id sc) pd) (enumerate 0 pds)\<rparr>))"

text \<open>\<^verbatim>\<open>addPrizeToScratchCard(scratchCardId, prizeData)\<close>.\<close>

definition addPrizeToScratchCard ::
  "string \<Rightarrow> prize_data \<Rightarrow> string \<Rightarrow> db \<Rightarrow> (error + prize) \<times> db" where
  "addPrizeToScratchCard scratchCardId pd newId d =
     (case find (\<lambda>c. sc_id c = scratchCardId) (scratchCards d) of
        None \<Rightarrow> (Inl ScratchCardNotFound, d)
      | Some c \<Rightarrow>
          if sc_deleted c then (Inl ScratchCardNotFound, d)
          else
            (case validatePrizeData pd of
               Inl e \<Rightarrow> (Inl e, d)
             | Inr _ \<Rightarrow>
                 (Inr (prize_row newId scratchCardId pd),
                  d\<lparr>prizes := prizes d @ [prize_row newId scratchCardId pd]\<rparr>)))"

text \<open>
  The \<^verbatim>\<open>updateData\<close> object of \<^verbatim>\<open>updatePrize\<close>: an absent field is \<open>None\<close>. A
  falsy \<^verbatim>\<open>value\<close>, \<^verbatim>\<open>redemption_value\<close> or \<^verbatim>\<open>probability\<close> (0) leaves the column
  as it is.
\<close>

record prize_update =
  pu_name :: "string option"
  pu_kind :: "string option"
  pu_value :: "rat option"
  pu_product_name :: "string option"
  pu_redemption_value :: "rat option"
  pu_probability :: "rat option"
  pu_is_active :: "bool option"

definition apply_prize_update :: "prize_update \<Rightarrow> prize \<Rightarrow> prize" where
  "apply_prize_update upd p =
     p\<lparr>prize_name := (case pu_name upd of None \<Rightarrow> prize_name p | Some n \<Rightarrow> n),
       prize_kind := (case pu_kind upd of None \<Rightarrow> prize_kind p | Some k \<Rightarrow> k),
       prize_value := (case truthy (pu_value upd) of None \<Rightarrow> prize_value p | Some v \<Rightarrow> Some v),
       product_name := (case pu_product_name upd of None \<Rightarrow> product_name p | Some n \<Rightarrow> Some n),
       redemption_value := (case truthy (pu_redemption_value upd) of
                              None \<Rightarrow> redemption_value p | Some v \<Rightarrow> Some v),
       probability := (case truthy (pu_probability upd) of
                         None \<Rightarrow> probability p | Some v \<Rightarrow> v),
       prize_is_active := (case pu_is_active upd of None \<Rightarrow> prize_is_active p | Some b \<Rightarrow> b)\<rparr>"

definition updatePrize :: "string \<Rightarrow> prize_update \<Rightarrow> db \<Rightarrow> (error + prize) \<times> db" where
  "updatePrize prizeId upd d =
     (case find (\<lambda>p. prize_id p = prizeId) (prizes d) of
        None \<Rightarrow> (Inl PrizeNotFound, d)
      | Some existingPrize \<Rightarrow>
          (case (case pu_probability upd of None \<Rightarrow> Inr () | Some pr \<Rightarrow> validateProbability pr) of
             Inl e \<Rightarrow> (Inl e, d)
           | Inr _ \<Rightarrow>
              (case (case pu_kind upd of
                       None \<Rightarrow> Inr ()
                     | Some k \<Rightarrow> if k \<noteq> [] \<and> k \<noteq> prize_kind existingPrize
                                 then validatePrizeType k else Inr ()) of
                 Inl e \<Rightarrow> (Inl e, d)
               | Inr _ \<Rightarrow>
                   (case update_where (\<lambda>p. prize_id p = prizeId) (apply_prize_update upd)
                           (prizes d) of
                      Inl e \<Rightarrow> (Inl e, d)
                    | Inr ps \<Rightarrow> (Inr (apply_prize_update upd existingPrize), d\<lparr>prizes := ps\<rparr>)))))"

text \<open>The sum the invariant of a product bounds: the probabilities of its active prizes.\<close>

definition active_probability_sum :: "string \<Rightarrow> db \<Rightarrow> rat" where
  "active_probability_sum scratchCardId d =
     sum_list (map probability
       (filter (\<lambda>p. prize_scratchCardId p = scratchCardId \<and> prize_is_active p) (prizes d)))"

section \<open>Example states\<close>

text \<open>
  A small store used to run the operations on concrete inputs: one player with a
  wallet of 5, one active card of price 1 without prizes, and one active license with
  a single credit, a credit value of 1 and a GGR of 10 percent.
\<close>

definition ex_user :: user where
  "ex_user = \<lparr>user_id = ''u1'', is_influencer = False, total_scratchs = 0,
               total_wins = 0, total_losses = 0\<rparr>"

definition ex_wallet :: wallet where
  "ex_wallet = \<lparr>wallet_id = ''w1'', wallet_userId = ''u1'', balance = 5\<rparr>"

definition ex_card :: scratchCard where
  "ex_card = \<lparr>sc_id = ''c1'', price = 1, sc_is_active = True, sc_deleted = False,
               target_rtp = 85, current_rtp = 0, total_revenue = 0, total_payouts = 0,
               total_games_played = 0\<rparr>"

definition ex_license :: license where
  "ex_license = \<lparr>license_id = ''l1'', credits = 1, credits_used = 0, credits_value = 1,
                  ggr_percentage = 10, total_earnings = 0, license_is_active = True\<rparr>"

definition ex_db :: db where
  "ex_db = \<lparr>users = [ex_user], wallets = [ex_wallet], scratchCards = [ex_card],
             prizes = [], games = [], licenses = [ex_license], usageLicenses = []\<rparr>"

text \<open>The same store with a second, later license row holding 7 credits.\<close>

definition ex_db2 :: db where
  "ex_db2 = ex_db\<lparr>licenses := [ex_license, ex_license\<lparr>license_id := ''l2'', credits := 7\<rparr>]\<rparr>"

text \<open>
  Scenario A of the specification: the card has a single money prize of value 10 and
  probability 100.
\<close>

definition ex_prize :: prize where
  "ex_prize = \<lparr>prize_id = ''p1'', prize_scratchCardId = ''c1'', prize_name = ''Ten'',
                prize_kind = ''MONEY'', prize_value = Some 10, product_name = None,
                redemption_value = None, probability = 100, prize_is_active = True\<rparr>"

definition ex_db_prize :: db where
  "ex_db_prize = ex_db\<lparr>prizes := [ex_prize]\<rparr>"

text \<open>
  A store where the player has won a product prize with a redemption value of 50 and
  has not chosen yet.
\<close>

definition ex_product_prize :: prize where
  "ex_product_prize = \<lparr>prize_id = ''p2'', prize_scratchCardId = ''c1'', prize_name = ''Phone'',
                        prize_kind = ''PRODUCT'', prize_value = None,
                        product_name = Some ''Phone'', redemption_value = Some 50,
                        probability = 1, prize_is_active = True\<rparr>"

definition ex_game :: game where
  "ex_game = \<lparr>game_id = ''g1'', game_userId = ''u1'', game_scratchCardId = ''c1'',
               game_prizeId = Some ''p2'', is_winner = True, amount_won = 0,
               game_prize_type = Some ''PRODUCT'', redemption_choice = False,
               game_status = ''COMPLETED''\<rparr>"

definition ex_db_game :: db where
  "ex_db_game = ex_db\<lparr>prizes := [ex_product_prize], games := [ex_game]\<rparr>"

text \<open>A prize object of probability 50, valid on its own.\<close>

definition ex_prize_data :: prize_data where
  "ex_prize_data = \<lparr>pd_name = ''Bonus'', pd_kind = ''MONEY'', pd_value = Some 5,
                     pd_product_name = None, pd_redemption_value = None,
                     pd_probability = 50, pd_is_active = None\<rparr>"


section \<open>Properties of the rounding to doubles\<close>

lemma bit_length_pos: "0 < k \<Longrightarrow> 0 < bit_length k"
proof (induction k rule: bit_length.induct)
  case (1 k)
  have "0 \<le> bit_length (k div 2)"
  proof (cases "0 < k div 2")
    case True
    with 1 show ?thesis by simp
  next
    case False
    then show ?thesis by (simp add: bit_length.simps [of "k div 2"])
  qed
  with 1 show ?case by (simp add: bit_length.simps [of k])
qed

lemma bit_length_bounds:
  "0 < k \<Longrightarrow> 2 ^ nat (bit_length k - 1) \<le> k \<and> k < 2 ^ nat (bit_length k)"
proof (induction k rule: bit_length.induct)
  case (1 k)
  from "1.prems" have bl: "bit_length k = 1 + bit_length (k div 2)"
    by (simp add: bit_length.simps [of k])
  show ?case
  proof (cases "0 < k div 2")
    case False
    with "1.prems" have "k = 1" by simp
    then show ?thesis by (simp add: bit_length.simps [of 1] bit_length.simps [of 0])
  next
    case True
    let ?l = "bit_length (k div 2)"
    from "1.IH" "1.prems" True
    have lo: "2 ^ nat (?l - 1) \<le> k div 2" and hi: "k div 2 < 2 ^ nat ?l"
      by simp_all
    from bit_length_pos [OF True] have lp: "0 < ?l" .
    then have s: "nat ?l = Suc (nat (?l - 1))" by simp
    have "2 ^ nat ?l = 2 * (2::int) ^ nat (?l - 1)" by (subst s) simp
    also have "\<dots> \<le> 2 * (k div 2)" using lo by simp
    also have "\<dots> \<le> k" by simp
    finally have A: "2 ^ nat ?l \<le> k" .
    have "k < 2 * (k div 2) + 2" by presburger
    also have "\<dots> \<le> 2 * 2 ^ nat ?l" using hi by simp
    finally have B: "k < 2 ^ nat (1 + ?l)" using lp by (simp add: nat_add_distrib)
    from A B lp show ?thesis by (simp add: bl)
  qed
qed

lemma binade_le:
  assumes "0 < x"
  shows "2 powi (binade x) \<le> x"
proof -
  obtain a b where q: "quotient_of x = (a, b)" by (cases "quotient_of x")
  then have x: "x = of_int a / of_int b" and b: "0 < b"
    by (simp_all add: quotient_of_div quotient_of_denom_pos)
  with assms have a: "0 < a" by (simp add: zero_less_divide_iff)
  let ?e0 = "bit_length a - bit_length b"
  show ?thesis
  proof (cases "2 powi ?e0 \<le> x")
    case True
    then show ?thesis by (simp add: binade_def q)
  next
    case False
    then have e: "binade x = ?e0 - 1" by (simp add: binade_def q)
    from bit_length_bounds [OF a] have la: "(2::int) ^ nat (bit_length a - 1) \<le> a" by simp
    from bit_length_bounds [OF b] have lb: "b < (2::int) ^ nat (bit_length b)" by simp
    from bit_length_pos [OF a] bit_length_pos [OF b]
    have pa: "0 \<le> bit_length a - 1" and pb: "0 \<le> bit_length b" by simp_all
    have "?e0 - 1 = (bit_length a - 1) - bit_length b" by simp
    then have "(2::rat) powi (?e0 - 1) = 2 powi ((bit_length a - 1) - bit_length b)"
      by (rule arg_cong)
    also have "\<dots> = 2 powi (bit_length a - 1) / 2 powi (bit_length b)"
      by (rule power_int_diff) simp
    also have "\<dots> = 2 ^ nat (bit_length a - 1) / 2 ^ nat (bit_length b)"
      using pa pb by (simp add: power_int_def)
    also have "\<dots> \<le> of_int a / of_int b"
    proof -
      have 1: "(2::rat) ^ nat (bit_length a - 1) \<le> of_int a"
        using la by (metis of_int_le_iff of_int_numeral of_int_power)
      have 2: "(of_int b :: rat) \<le> 2 ^ nat (bit_length b)"
        using lb by (metis less_imp_le of_int_le_iff of_int_numeral of_int_power)
      have 3: "(0::rat) < of_int b" using b by simp
      have 4: "(0::rat) \<le> of_int a" using a by simp
      show ?thesis
        by (rule frac_le [OF 4 1 3 2])
    qed
    finally have "(2::rat) powi (?e0 - 1) \<le> x" unfolding x .
    then show ?thesis unfolding e .
  qed
qed

lemma round_half_even_ge_floor: "\<lfloor>q\<rfloor> \<le> round_half_even q"
  by (simp add: round_half_even_def Let_def)

lemma double_of_pos:
  assumes "0 < x"
  shows "0 < double_of x"
proof -
  let ?u = "(2::rat) powi (binade x - 52)"
  have u: "0 < ?u" by simp
  have "?u * 2 ^ 52 = 2 powi (binade x)"
    by (simp add: power_int_diff)
  also have "\<dots> \<le> x" by (rule binade_le [OF assms])
  finally have "2 ^ 52 \<le> x / ?u" using u by (simp add: pos_le_divide_eq mult.commute)
  moreover have "(1::rat) \<le> 2 ^ 52" by simp
  ultimately have "(1::rat) \<le> x / ?u" by (rule order_trans [rotated])
  then have "1 \<le> \<lfloor>x / ?u\<rfloor>" by (simp only: le_floor_iff of_int_1)
  with round_half_even_ge_floor [of "x / ?u"] have "0 < round_half_even (x / ?u)" by linarith
  with u assms show ?thesis
    by (simp add: double_of_def Let_def)
qed

lemma double_of_minus: "double_of (- x) = - double_of x"
  by (simp add: double_of_def Let_def sgn_minus)

lemma double_of_zero: "double_of 0 = 0"
  by (simp add: double_of_def)

lemma double_of_pos_iff: "0 < double_of x \<longleftrightarrow> 0 < x"
proof (cases "0 < x")
  case True
  then show ?thesis by (simp add: double_of_pos)
next
  case False
  show ?thesis
  proof (cases "x = 0")
    case True
    then show ?thesis by (simp add: double_of_zero)
  next
    case neg: False
    with False have "0 < - x" by simp
    from double_of_pos [OF this] have "double_of x < 0" by (simp add: double_of_minus)
    with False show ?thesis by simp
  qed
qed


section \<open>Properties of the outcome resolver\<close>

lemma find_map_comp:
  "find P (map f xs) = map_option f (find (\<lambda>x. P (f x)) xs)"
  by (induction xs) auto

lemma find_upt_Suc:
  "find P [0..<Suc n] = (if P 0 then Some 0 else map_option Suc (find (\<lambda>k. P (Suc k)) [0..<n]))"
proof -
  have "[0..<Suc n] = 0 # map Suc [0..<n]"
    by (simp add: upt_conv_Cons map_Suc_upt del: upt_Suc)
  then show ?thesis
    by (simp add: find_map_comp del: upt_Suc)
qed

lemma walk_prizes_find:
  "walk_prizes r m cum ps =
     map_option (\<lambda>k. ps ! k)
       (find (\<lambda>k. r \<le> foldl (\<lambda>acc p. fadd acc (fmul (double_of (probability p)) m)) cum
                           (take (Suc k) ps))
          [0..<length ps])"
proof (induction ps arbitrary: cum)
  case Nil
  then show ?case by simp
next
  case (Cons p ps)
  show ?case
    unfolding length_Cons find_upt_Suc
    by (simp add: Cons.IH option.map_comp comp_def Let_def del: upt_Suc)
qed

text \<open>
  Claim C4, as stated, fails in the arithmetic of the rationals. The product has one
  prize of probability 4.2 and its current RTP is below the target, so the
  multiplier is 1.2 and the claim's cumulative sum is 4.2 times 1.2, that is 126/25.
  The draw is the double that \<^verbatim>\<open>Math.random() = 226981421219473 / 2^52\<close> gives when
  multiplied by 100; it exceeds 126/25, so the algorithm as worded loses. The code
  multiplies the doubles of 4.2 and 1.2, which gives that same double, and wins.
\<close>

theorem determineGameResult_boundary_draw:
  "fmul (226981421219473 / 2 ^ 52) 100 = 5674535530486825 / 1125899906842624
   \<and> 0 \<le> (5674535530486825 / 1125899906842624 :: rat)
   \<and> (5674535530486825 / 1125899906842624 :: rat) < 100
   \<and> 126 / 25 < (5674535530486825 / 1125899906842624 :: rat)
   \<and> isWinner (determineGameResult ex_card [ex_prize\<lparr>probability := 42 / 10\<rparr>] (Some ex_user)
                 (5674535530486825 / 1125899906842624))
   \<and> \<not> isWinner (spec_resolver id (current_rtp ex_card) (target_rtp ex_card)
                   (is_privileged (Some ex_user)) [ex_prize\<lparr>probability := 42 / 10\<rparr>]
                   (5674535530486825 / 1125899906842624))
   \<and> spec_cumulative id (spec_multiplier id (current_rtp ex_card) (target_rtp ex_card)
         (is_privileged (Some ex_user))) [ex_prize\<lparr>probability := 42 / 10\<rparr>] 1 = 126 / 25"
  by code_simp

text \<open>
  Claim C4, amended: with the arithmetic of JavaScript's numbers. For every prize
  list, pair of RTP values, privilege flag and draw, \<open>determineGameResult\<close> is the
  specified algorithm computed in doubles: the multiplier is the double 1.2, the
  double 0.8 or 1 by the comparison of current and target RTP, times 6 (rounded) for
  a privileged player; an empty prize list loses; otherwise the first prize, in list
  order, whose cumulative sum of rounded products, rounded at each addition, reaches
  the draw wins, and the play loses when none does.
\<close>

theorem determineGameResult_refines_spec:
  "determineGameResult sc ps usr r
     = spec_resolver double_of (double_of (current_rtp sc)) (double_of (target_rtp sc))
         (is_privileged usr) ps r"
proof (cases "ps = []")
  case True
  then show ?thesis
    by (simp add: determineGameResult_def spec_resolver_def)
next
  case False
  have m: "(if is_privileged usr
            then fmul (if double_of (current_rtp sc) < double_of (target_rtp sc)
                       then double_of (12 / 10)
                       else if double_of (current_rtp sc) > double_of (target_rtp sc)
                            then double_of (8 / 10) else 1) 6
            else (if double_of (current_rtp sc) < double_of (target_rtp sc)
                  then double_of (12 / 10)
                  else if double_of (current_rtp sc) > double_of (target_rtp sc)
                       then double_of (8 / 10) else 1))
           = spec_multiplier double_of (double_of (current_rtp sc)) (double_of (target_rtp sc))
               (is_privileged usr)"
    by (simp add: spec_multiplier_def Let_def fmul_def)
  have c: "\<And>m k. foldl (\<lambda>acc p. fadd acc (fmul (double_of (probability p)) m)) 0 (take k ps)
             = spec_cumulative double_of m ps k"
    by (simp add: spec_cumulative_def fadd_def fmul_def)
  show ?thesis
    using False
    unfolding determineGameResult_def spec_resolver_def Let_def is_privileged_def [symmetric] m
    by (simp add: walk_prizes_find c split: option.splits)
qed

text \<open>
  For a privileged player the multiplier is the double product of 1.2 and 6, just
  below 7.2.
\<close>

lemma privileged_multiplier_rounds:
  "spec_multiplier double_of 0 85 True = 2026619832316723 / 281474976710656
   \<and> spec_multiplier double_of 0 85 True < 72 / 10
   \<and> spec_multiplier id 0 85 True = 72 / 10"
  by code_simp
section \<open>Properties of the license service\<close>

lemmas ex_defs = ex_db_def ex_user_def ex_wallet_def ex_card_def ex_license_def ex_db2_def

lemma findFirst_id_desc_None: "findFirst_id_desc ls = None \<longleftrightarrow> ls = []"
  by (induction ls) (auto split: option.splits)

lemma findFirst_id_desc_greatest:
  "findFirst_id_desc ls = Some l \<Longrightarrow> l \<in> set ls \<and> (\<forall>x \<in> set ls. license_id x \<le> license_id l)"
proof (induction ls arbitrary: l)
  case Nil
  then show ?case by simp
next
  case (Cons a ls)
  show ?case
  proof (cases "findFirst_id_desc ls")
    case None
    then have "ls = []" by (simp add: findFirst_id_desc_None)
    with Cons.prems show ?thesis by simp
  next
    case (Some m)
    from Cons.IH [OF Some] have m: "m \<in> set ls" "\<forall>x \<in> set ls. license_id x \<le> license_id m"
      by simp_all
    show ?thesis
    proof (cases "license_id a < license_id m")
      case True
      with Some Cons.prems have "l = m" by simp
      with m True show ?thesis by auto
    next
      case False
      with Some Cons.prems have "l = a" by simp
      with m False show ?thesis by (auto simp: not_less intro: order_trans)
    qed
  qed
qed

lemma update_where_member:
  "x \<in> set xs \<Longrightarrow> p x \<Longrightarrow> update_where p f xs = Inr (map (\<lambda>y. if p y then f y else y) xs)"
  by (auto simp: update_where_def list_ex_iff)

lemma getCurrentLicense_Inr:
  "getCurrentLicense d = Inr l \<Longrightarrow> l \<in> set (licenses d) \<and> (\<forall>x \<in> set (licenses d). license_id x \<le> license_id l)"
  by (auto simp: getCurrentLicense_def split: option.splits dest: findFirst_id_desc_greatest)

lemma getCurrentLicense_empty: "licenses d = [] \<Longrightarrow> getCurrentLicense d = Inl NoLicenseFound"
  by (simp add: getCurrentLicense_def)

lemma getCurrentLicense_nonempty: "licenses d \<noteq> [] \<Longrightarrow> \<exists>l. getCurrentLicense d = Inr l"
  by (cases "findFirst_id_desc (licenses d)") (simp_all add: getCurrentLicense_def findFirst_id_desc_None)

lemma hasEnoughCredits_license:
  "getCurrentLicense d = Inr l \<Longrightarrow> \<exists>chk. hasEnoughCredits amount d = Inr chk \<and> chk_license chk = l"
  by (simp add: hasEnoughCredits_def Let_def)

lemma consume_returns:
  "hasEnoughCredits amount g = Inr chk
   \<Longrightarrow> \<exists>res c'. consumeCreditsAndAddEarnings amount uid cid tx g = Inr (res, c')"
  unfolding consumeCreditsAndAddEarnings_def Let_def
  by (auto split: license_check.splits sum.splits)

lemma consume_on_current:
  assumes cur: "getCurrentLicense g = Inr l"
      and res: "consumeCreditsAndAddEarnings amount uid cid tx g = Inr (res, c')"
  shows "licenses c' =
           (if cr_success res
            then map (\<lambda>x. if license_id x = license_id l
                           then x\<lparr>credits_used := credits_used x + creditsNeeded_for amount l,
                                  credits := credits x - creditsNeeded_for amount l,
                                  total_earnings := total_earnings x + fmul (double_of amount) (fdiv (double_of (ggr_percentage l)) 100)\<rparr>
                           else x) (licenses (case tx of Some t \<Rightarrow> t | None \<Rightarrow> g))
            else licenses (case tx of Some t \<Rightarrow> t | None \<Rightarrow> g))"
  using cur res
  by (auto simp: consumeCreditsAndAddEarnings_def hasEnoughCredits_def Let_def update_where_def
           split: if_splits sum.splits)

text \<open>
  Claim C8, as stated, fails in the arithmetic of the rationals. The license is
  active, holds 3 credits and values a credit at 0.7; the amount is 2.1. The ceiling
  of 2.1 / 0.7 is 3, which the license holds, so the claim has the check succeed. The
  code divides the doubles of 2.1 and 0.7, which gives 3.0000000000000004, needs 4
  credits and returns the failure for insufficient credits.
\<close>

theorem hasEnoughCredits_rounded_quotient:
  "hasEnoughCredits (21 / 10)
      (ex_db\<lparr>licenses := [ex_license\<lparr>credits_value := 7 / 10, credits := 3\<rparr>]\<rparr>)
     = Inr (InsufficientCredits 4 3 (ex_license\<lparr>credits_value := 7 / 10, credits := 3\<rparr>))
   \<and> license_is_active (ex_license\<lparr>credits_value := 7 / 10, credits := 3\<rparr>)
   \<and> 0 < credits_value (ex_license\<lparr>credits_value := 7 / 10, credits := 3\<rparr>)
   \<and> \<lceil>(21 / 10 :: rat) / credits_value (ex_license\<lparr>credits_value := 7 / 10, credits := 3\<rparr>)\<rceil> = 3
   \<and> credits (ex_license\<lparr>credits_value := 7 / 10, credits := 3\<rparr>) = 3
   \<and> fdiv (double_of (21 / 10)) (double_of (7 / 10)) = 6755399441055745 / 2251799813685248
   \<and> 3 < (6755399441055745 / 2251799813685248 :: rat)"
  by code_simp

text \<open>
  Claim C8, amended: the quotient is JavaScript's. Given the current license,
  \<open>hasEnoughCredits\<close> returns an object and never throws; the credits needed are the
  ceiling of the double quotient of the doubles of the amount and of the credit
  value when the credit value is positive, and 1 otherwise; the object is a failure
  exactly when the license is inactive or holds fewer credits than needed, and the
  success object otherwise. (Without any license row the call throws; that is part
  of claim C10.)
\<close>

theorem hasEnoughCredits_spec:
  assumes "getCurrentLicense d = Inr l"
  shows "\<exists>chk. hasEnoughCredits amount d = Inr chk
           \<and> (let creditsNeeded =
                    (if credits_value l > 0
                     then \<lceil>fdiv (double_of amount) (double_of (credits_value l))\<rceil> else 1)
              in (\<not> chk_success chk \<longleftrightarrow> (\<not> license_is_active l \<or> credits l < creditsNeeded))
                 \<and> (chk_success chk \<longleftrightarrow> chk = EnoughCredits creditsNeeded (credits l) l)
                 \<and> (license_is_active l \<and> credits l < creditsNeeded
                      \<longleftrightarrow> chk = InsufficientCredits creditsNeeded (credits l) l)
                 \<and> (\<not> license_is_active l \<longleftrightarrow> chk = LicenseInactive l))"
  using assms by (simp add: hasEnoughCredits_def creditsNeeded_for_def Let_def)

theorem hasEnoughCredits_spec_witness:
  "getCurrentLicense ex_db2 = Inr (ex_license\<lparr>license_id := ''l2'', credits := 7\<rparr>)
   \<and> hasEnoughCredits (5 / 2) ex_db2
       = Inr (EnoughCredits 3 7 (ex_license\<lparr>license_id := ''l2'', credits := 7\<rparr>))
   \<and> hasEnoughCredits 8 ex_db2
       = Inr (InsufficientCredits 8 7 (ex_license\<lparr>license_id := ''l2'', credits := 7\<rparr>))
   \<and> hasEnoughCredits (105 / 100)
        (ex_db\<lparr>licenses := [ex_license\<lparr>credits_value := 15 / 100, credits := 8\<rparr>]\<rparr>)
       = Inr (EnoughCredits 8 8 (ex_license\<lparr>credits_value := 15 / 100, credits := 8\<rparr>))
   \<and> hasEnoughCredits 5
        (ex_db\<lparr>licenses := [ex_license\<lparr>license_is_active := False\<rparr>]\<rparr>)
       = Inr (LicenseInactive (ex_license\<lparr>license_is_active := False\<rparr>))"
proof -
  let ?l = "ex_license\<lparr>license_id := ''l2'', credits := 7\<rparr>"
  let ?k = "ex_license\<lparr>credits_value := 15 / 100, credits := 8\<rparr>"
  let ?i = "ex_license\<lparr>license_is_active := False\<rparr>"
  have cur: "getCurrentLicense ex_db2 = Inr ?l"
    and curk: "getCurrentLicense (ex_db\<lparr>licenses := [?k]\<rparr>) = Inr ?k"
    and curi: "getCurrentLicense (ex_db\<lparr>licenses := [?i]\<rparr>) = Inr ?i"
    by (simp_all add: getCurrentLicense_def ex_defs)
  have c1: "\<lceil>fdiv (double_of (5 / 2)) (double_of 1)\<rceil> = 3"
    and c2: "\<lceil>fdiv (double_of 8) (double_of 1)\<rceil> = 8"
    and c3: "\<lceil>fdiv (double_of (21 / 20)) (double_of (3 / 20))\<rceil> = 8"
    by code_simp+
  have v: "credits_value ?l = 1" "credits ?l = 7" "license_is_active ?l"
    "credits_value ?k = 15 / 100" "credits ?k = 8" "license_is_active ?k"
    "\<not> license_is_active ?i"
    by (simp_all add: ex_defs)
  from hasEnoughCredits_spec [OF cur, of "5 / 2"]
  have A: "hasEnoughCredits (5 / 2) ex_db2 = Inr (EnoughCredits 3 7 ?l)"
    using v by (auto simp: Let_def c1)
  from hasEnoughCredits_spec [OF cur, of 8]
  have B: "hasEnoughCredits 8 ex_db2 = Inr (InsufficientCredits 8 7 ?l)"
    using v by (auto simp: Let_def c2)
  from hasEnoughCredits_spec [OF curk, of "105 / 100"]
  have C: "hasEnoughCredits (105 / 100) (ex_db\<lparr>licenses := [?k]\<rparr>) = Inr (EnoughCredits 8 8 ?k)"
    using v by (auto simp: Let_def c3)
  from hasEnoughCredits_spec [OF curi, of 5]
  have D: "hasEnoughCredits 5 (ex_db\<lparr>licenses := [?i]\<rparr>) = Inr (LicenseInactive ?i)"
    using v by (auto simp: Let_def)
  from cur A B C D show ?thesis by simp
qed

text \<open>
  Claim C10. Every operation of the license service works on the current license,
  the row of greatest id: without any license row each of them fails with
  \<open>NoLicenseFound\<close> (\<open>checkLicenseStatus\<close> returns it in a failure object); with a row,
  the status and the credit check report that row, and consumption, credit edits,
  earnings and parameter edits rewrite the rows of that id and no other.
\<close>

theorem license_operations_use_current_license:
  "(licenses d = [] \<longrightarrow>
        getCurrentLicense d = Inl NoLicenseFound
      \<and> checkLicenseStatus d = StatusFailed NoLicenseFound
      \<and> hasEnoughCredits amount d = Inl NoLicenseFound
      \<and> consumeCreditsAndAddEarnings amount uid cid tx d = Inl NoLicenseFound
      \<and> editCredits n d = Inl NoLicenseFound
      \<and> addEarnings amount d = Inl NoLicenseFound
      \<and> updateLicenseParams ps d = Inl NoLicenseFound)
   \<and> (licenses d \<noteq> [] \<longrightarrow>
        (\<exists>l. getCurrentLicense d = Inr l
           \<and> l \<in> set (licenses d)
           \<and> (\<forall>x \<in> set (licenses d). license_id x \<le> license_id l)
           \<and> checkLicenseStatus d = StatusOk (license_is_active l) (credits l > 0) l
           \<and> (\<exists>chk. hasEnoughCredits amount d = Inr chk \<and> chk_license chk = l)
           \<and> (\<exists>res c'. consumeCreditsAndAddEarnings amount uid cid tx d = Inr (res, c')
                 \<and> licenses c' =
                     (if cr_success res
                      then map (\<lambda>x. if license_id x = license_id l
                             then x\<lparr>credits_used := credits_used x + creditsNeeded_for amount l,
                                    credits := credits x - creditsNeeded_for amount l,
                                    total_earnings := total_earnings x
                                       + fmul (double_of amount)
                                           (fdiv (double_of (ggr_percentage l)) 100)\<rparr>
                             else x) (licenses (case tx of Some t \<Rightarrow> t | None \<Rightarrow> d))
                      else licenses (case tx of Some t \<Rightarrow> t | None \<Rightarrow> d)))
           \<and> editCredits n d =
               Inr (d\<lparr>licenses := map (\<lambda>x. if license_id x = license_id l
                                             then x\<lparr>credits := n\<rparr> else x) (licenses d)\<rparr>)
           \<and> addEarnings amount d =
               Inr (d\<lparr>licenses := map (\<lambda>x. if license_id x = license_id l
                                             then x\<lparr>total_earnings := total_earnings x + amount\<rparr>
                                             else x) (licenses d)\<rparr>)
           \<and> updateLicenseParams ps d =
               Inr (d\<lparr>licenses := map (\<lambda>x. if license_id x = license_id l
                                             then apply_license_params ps x else x)
                                        (licenses d)\<rparr>)))"
proof (intro conjI impI)
  assume e: "licenses d = []"
  note c = getCurrentLicense_empty [OF e]
  show "getCurrentLicense d = Inl NoLicenseFound" by (rule c)
  show "checkLicenseStatus d = StatusFailed NoLicenseFound" by (simp add: checkLicenseStatus_def c)
  show "hasEnoughCredits amount d = Inl NoLicenseFound" by (simp add: hasEnoughCredits_def c)
  then show "consumeCreditsAndAddEarnings amount uid cid tx d = Inl NoLicenseFound"
    by (simp add: consumeCreditsAndAddEarnings_def)
  show "editCredits n d = Inl NoLicenseFound" by (simp add: editCredits_def c)
  show "addEarnings amount d = Inl NoLicenseFound" by (simp add: addEarnings_def c)
  show "updateLicenseParams ps d = Inl NoLicenseFound" by (simp add: updateLicenseParams_def c)
next
  assume ne: "licenses d \<noteq> []"
  then obtain l where cur: "getCurrentLicense d = Inr l"
    using getCurrentLicense_nonempty by blast
  from getCurrentLicense_Inr [OF cur]
  have mem: "l \<in> set (licenses d)" and top: "\<forall>x \<in> set (licenses d). license_id x \<le> license_id l"
    by simp_all
  have upd: "\<And>f. update_where (\<lambda>x. license_id x = license_id l) f (licenses d)
              = Inr (map (\<lambda>x. if license_id x = license_id l then f x else x) (licenses d))"
    using mem by (simp add: update_where_member)
  have st: "checkLicenseStatus d = StatusOk (license_is_active l) (credits l > 0) l"
    by (simp add: checkLicenseStatus_def cur)
  obtain chk where chk: "hasEnoughCredits amount d = Inr chk"
    using hasEnoughCredits_license [OF cur] by blast
  then obtain res c' where con: "consumeCreditsAndAddEarnings amount uid cid tx d = Inr (res, c')"
    using consume_returns by blast
  note eff = consume_on_current [OF cur con]
  have ed: "editCredits n d =
               Inr (d\<lparr>licenses := map (\<lambda>x. if license_id x = license_id l
                                             then x\<lparr>credits := n\<rparr> else x) (licenses d)\<rparr>)"
    by (simp add: editCredits_def cur upd)
  have ad: "addEarnings amount d =
               Inr (d\<lparr>licenses := map (\<lambda>x. if license_id x = license_id l
                                             then x\<lparr>total_earnings := total_earnings x + amount\<rparr>
                                             else x) (licenses d)\<rparr>)"
    by (simp add: addEarnings_def cur upd)
  have up: "updateLicenseParams ps d =
               Inr (d\<lparr>licenses := map (\<lambda>x. if license_id x = license_id l
                                             then apply_license_params ps x else x)
                                        (licenses d)\<rparr>)"
    by (simp add: updateLicenseParams_def cur upd)
  show "\<exists>l. getCurrentLicense d = Inr l
           \<and> l \<in> set (licenses d)
           \<and> (\<forall>x \<in> set (licenses d). license_id x \<le> license_id l)
           \<and> checkLicenseStatus d = StatusOk (license_is_active l) (credits l > 0) l
           \<and> (\<exists>chk. hasEnoughCredits amount d = Inr chk \<and> chk_license chk = l)
           \<and> (\<exists>res c'. consumeCreditsAndAddEarnings amount uid cid tx d = Inr (res, c')
                 \<and> licenses c' =
                     (if cr_success res
                      then map (\<lambda>x. if license_id x = license_id l
                             then x\<lparr>credits_used := credits_used x + creditsNeeded_for amount l,
                                    credits := credits x - creditsNeeded_for amount l,
                                    total_earnings := total_earnings x
                                       + fmul (double_of amount)
                                           (fdiv (double_of (ggr_percentage l)) 100)\<rparr>
                             else x) (licenses (case tx of Some t \<Rightarrow> t | None \<Rightarrow> d))
                      else licenses (case tx of Some t \<Rightarrow> t | None \<Rightarrow> d)))
           \<and> editCredits n d =
               Inr (d\<lparr>licenses := map (\<lambda>x. if license_id x = license_id l
                                             then x\<lparr>credits := n\<rparr> else x) (licenses d)\<rparr>)
           \<and> addEarnings amount d =
               Inr (d\<lparr>licenses := map (\<lambda>x. if license_id x = license_id l
                                             then x\<lparr>total_earnings := total_earnings x + amount\<rparr>
                                             else x) (licenses d)\<rparr>)
           \<and> updateLicenseParams ps d =
               Inr (d\<lparr>licenses := map (\<lambda>x. if license_id x = license_id l
                                             then apply_license_params ps x else x)
                                        (licenses d)\<rparr>)"
    using cur mem top st hasEnoughCredits_license [OF cur] con eff ed ad up by blast
qed

theorem license_operations_witness:
  "licenses ex_db2 \<noteq> []
   \<and> getCurrentLicense ex_db2 = Inr (ex_license\<lparr>license_id := ''l2'', credits := 7\<rparr>)
   \<and> editCredits 3 ex_db2
       = Inr (ex_db\<lparr>licenses := [ex_license, ex_license\<lparr>license_id := ''l2'', credits := 3\<rparr>]\<rparr>)
   \<and> licenses (ex_db\<lparr>licenses := []\<rparr>) = []
   \<and> hasEnoughCredits 1 (ex_db\<lparr>licenses := []\<rparr>) = Inl NoLicenseFound
   \<and> editCredits 3 (ex_db\<lparr>licenses := []\<rparr>) = Inl NoLicenseFound"
proof -
  let ?l = "ex_license\<lparr>license_id := ''l2'', credits := 7\<rparr>"
  have ne: "licenses ex_db2 \<noteq> []" by (simp add: ex_defs)
  have cur: "getCurrentLicense ex_db2 = Inr ?l"
    by (simp add: getCurrentLicense_def ex_defs)
  have e: "licenses (ex_db\<lparr>licenses := []\<rparr>) = []" by simp
  from license_operations_use_current_license
         [of ex_db2 1 "''u1''" "''c1''" None 3 "\<lparr>lp_credits = None, lp_credits_value = None,
              lp_ggr_percentage = None, lp_is_active = None\<rparr>"] ne cur
  have ed: "editCredits 3 ex_db2
       = Inr (ex_db2\<lparr>licenses := map (\<lambda>x. if license_id x = license_id ?l
                                             then x\<lparr>credits := 3\<rparr> else x) (licenses ex_db2)\<rparr>)"
    by auto
  from license_operations_use_current_license
         [of "ex_db\<lparr>licenses := []\<rparr>" 1 "''u1''" "''c1''" None 3 "\<lparr>lp_credits = None, lp_credits_value = None,
              lp_ggr_percentage = None, lp_is_active = None\<rparr>"] e
  have em: "hasEnoughCredits 1 (ex_db\<lparr>licenses := []\<rparr>) = Inl NoLicenseFound"
           "editCredits 3 (ex_db\<lparr>licenses := []\<rparr>) = Inl NoLicenseFound"
    by simp_all
  have "ex_db2\<lparr>licenses := map (\<lambda>x. if license_id x = license_id ?l
                                             then x\<lparr>credits := 3\<rparr> else x) (licenses ex_db2)\<rparr>
         = ex_db\<lparr>licenses := [ex_license, ex_license\<lparr>license_id := ''l2'', credits := 3\<rparr>]\<rparr>"
    by (simp add: ex_defs)
  with ed ne cur e em show ?thesis by simp
qed

text \<open>
  What a successful consumption writes: the rows of the checked license's id, in the
  client written to, lose the needed credits, gain them as used credits and gain
  amount times GGR percentage over 100, computed in doubles, as earnings, and one usage record is appended.
\<close>

lemma consumeCreditsAndAddEarnings_effect:
  assumes "hasEnoughCredits amount g = Inr (EnoughCredits n a lic)"
      and "list_ex (\<lambda>l. license_id l = license_id lic) (licenses (case tx of Some t \<Rightarrow> t | None \<Rightarrow> g))"
  shows "consumeCreditsAndAddEarnings amount uid cid tx g =
           Inr (Consumed n (fmul (double_of amount) (fdiv (double_of (ggr_percentage lic)) 100)) lic,
                (case tx of Some t \<Rightarrow> t | None \<Rightarrow> g)
                  \<lparr>licenses := map (\<lambda>l. if license_id l = license_id lic
                        then l\<lparr>credits_used := credits_used l + n, credits := credits l - n,
                               total_earnings := total_earnings l + fmul (double_of amount) (fdiv (double_of (ggr_percentage lic)) 100)\<rparr>
                        else l) (licenses (case tx of Some t \<Rightarrow> t | None \<Rightarrow> g)),
                    usageLicenses := usageLicenses (case tx of Some t \<Rightarrow> t | None \<Rightarrow> g) @
                       [\<lparr>usage_userId = uid, usage_licenseId = license_id lic,
                         usage_scratchCardId = cid, usage_credits_used = n\<rparr>]\<rparr>)"
  using assms by (simp add: consumeCreditsAndAddEarnings_def update_where_def Let_def)

text \<open>
  Claim C2. The claim has \<open>consumeCreditsAndAddEarnings\<close> validate the credits against
  the state inside the transaction it is handed. The check reads through the global
  client instead: two consumptions of amount 1 inside one transaction on a license
  with a single credit both succeed, although after the first the transaction's own
  view holds no credit and \<open>hasEnoughCredits\<close> on that view fails; the second leaves
  the credits of the transaction's view at -1.
\<close>

theorem consume_check_reads_outside_transaction:
  "(case consumeCreditsAndAddEarnings 1 ''u1'' ''c1'' (Some ex_db) ex_db of
      Inl e \<Rightarrow> False
    | Inr (r1, t1) \<Rightarrow>
        cr_success r1
        \<and> map credits (licenses t1) = [0]
        \<and> map_sum id chk_success (hasEnoughCredits 1 t1) = Inr False
        \<and> (case consumeCreditsAndAddEarnings 1 ''u1'' ''c1'' (Some t1) ex_db of
              Inl e \<Rightarrow> False
            | Inr (r2, t2) \<Rightarrow>
                cr_success r2
                \<and> map credits (licenses t2) = [- 1]
                \<and> map credits_used (licenses t2) = [2]
                \<and> length (usageLicenses t2) = 2))"
  by code_simp

section \<open>Properties of a play\<close>

lemmas ex_defs' = ex_defs ex_prize_def ex_db_prize_def

lemma find_map_preserve:
  "(\<And>x. q (h x) = q x) \<Longrightarrow> find q (map h xs) = map_option h (find q xs)"
  by (induction xs) auto

lemma update_where_Inr:
  "update_where p f xs = Inr ys \<Longrightarrow> ys = map (\<lambda>x. if p x then f x else x) xs"
  by (auto simp: update_where_def split: if_splits)

lemma filter_Cons_find: "filter q xs = w # ws \<Longrightarrow> find q xs = Some w"
  by (induction xs) (auto split: if_splits)

lemma consume_frame:
  "consumeCreditsAndAddEarnings a u c (Some t) g = Inr (res, t')
   \<Longrightarrow> users t' = users t \<and> wallets t' = wallets t \<and> scratchCards t' = scratchCards t
       \<and> prizes t' = prizes t \<and> games t' = games t"
  unfolding consumeCreditsAndAddEarnings_def Let_def
  by (auto split: sum.splits license_check.splits)

lemma play_tx_body_Inr:
  assumes "play_tx_body pp gameId g t = Inr (gm, t')"
  obtains ws1 ws2 us cs1 cs2 res where
    "update_where (\<lambda>w. wallet_id w = wallet_id (pp_wallet pp))
        (\<lambda>w. w\<lparr>balance := balance w - price (pp_card pp)\<rparr>) (wallets t) = Inr ws1"
    "(if wins_money (pp_gameResult pp)
      then update_where (\<lambda>w. wallet_id w = wallet_id (pp_wallet pp))
             (\<lambda>w. w\<lparr>balance := balance w + pp_amountWon pp\<rparr>) ws1
      else Inr ws1) = Inr ws2"
    "update_where (\<lambda>c. sc_id c = sc_id (pp_card pp))
        (\<lambda>c. c\<lparr>total_revenue := total_revenue c + price (pp_card pp),
               total_payouts := total_payouts c + pp_amountWon pp,
               total_games_played := total_games_played c + 1\<rparr>) (scratchCards t) = Inr cs1"
    "(if \<not> is_influencer (pp_user pp)
      then (case find (\<lambda>c. sc_id c = sc_id (pp_card pp)) cs1 of
              None \<Rightarrow> Inl RecordNotFound
            | Some updatedStats \<Rightarrow>
                update_where (\<lambda>c. sc_id c = sc_id (pp_card pp))
                  (\<lambda>c. c\<lparr>current_rtp :=
                      (if double_of (total_revenue updatedStats) > 0
                       then fmul (fdiv (double_of (total_payouts updatedStats))
                                      (double_of (total_revenue updatedStats))) 100
                       else 0)\<rparr>) cs1)
      else Inr cs1) = Inr cs2"
    "consumeCreditsAndAddEarnings (price (pp_card pp)) (user_id (pp_user pp)) (sc_id (pp_card pp))
       (Some (t\<lparr>wallets := ws2, games := games t @ [gm], users := us, scratchCards := cs2\<rparr>)) g
       = Inr (res, t')"
    "gm = \<lparr>game_id = gameId, game_userId = user_id (pp_user pp),
           game_scratchCardId = sc_id (pp_card pp), game_prizeId = pp_prizeId pp,
           is_winner = isWinner (pp_gameResult pp), amount_won = pp_amountWon pp,
           game_prize_type = pp_prizeType pp, redemption_choice = False,
           game_status = ''COMPLETED''\<rparr>"
  using assms unfolding play_tx_body_def Let_def
  by (auto split: sum.splits)

lemma play_tx_body_card:
  assumes run: "play_tx_body pp gameId g t = Inr (gm, t')"
      and c: "find (\<lambda>c. sc_id c = sc_id (pp_card pp)) (scratchCards t) = Some c"
  shows "find (\<lambda>c. sc_id c = sc_id (pp_card pp)) (scratchCards t')
           = Some (c\<lparr>total_revenue := total_revenue c + price (pp_card pp),
                     total_payouts := total_payouts c + pp_amountWon pp,
                     total_games_played := total_games_played c + 1,
                     current_rtp :=
                       (if is_influencer (pp_user pp) then current_rtp c
                        else if double_of (total_revenue c + price (pp_card pp)) > 0
                             then fmul (fdiv (double_of (total_payouts c + pp_amountWon pp))
                                            (double_of (total_revenue c + price (pp_card pp)))) 100
                             else 0)\<rparr>)"
proof -
  let ?p = "\<lambda>c. sc_id c = sc_id (pp_card pp)"
  let ?f1 = "\<lambda>c. c\<lparr>total_revenue := total_revenue c + price (pp_card pp),
               total_payouts := total_payouts c + pp_amountWon pp,
               total_games_played := total_games_played c + 1\<rparr>"
  from run obtain ws2 us cs1 cs2 res where
    cs1: "update_where ?p ?f1 (scratchCards t) = Inr cs1" and
    cs2: "(if \<not> is_influencer (pp_user pp)
      then (case find ?p cs1 of
              None \<Rightarrow> Inl RecordNotFound
            | Some updatedStats \<Rightarrow>
                update_where ?p
                  (\<lambda>c. c\<lparr>current_rtp :=
                      (if double_of (total_revenue updatedStats) > 0
                       then fmul (fdiv (double_of (total_payouts updatedStats))
                                      (double_of (total_revenue updatedStats))) 100
                       else 0)\<rparr>) cs1)
      else Inr cs1) = Inr cs2" and
    con: "consumeCreditsAndAddEarnings (price (pp_card pp)) (user_id (pp_user pp)) (sc_id (pp_card pp))
       (Some (t\<lparr>wallets := ws2, games := games t @ [gm], users := us, scratchCards := cs2\<rparr>)) g
       = Inr (res, t')"
    by (rule play_tx_body_Inr)
  from c have pc: "sc_id c = sc_id (pp_card pp)"
    by (auto simp: find_Some_iff)
  have f1: "find ?p cs1 = Some (?f1 c)"
    using update_where_Inr [OF cs1] c pc
    by (simp add: find_map_preserve [where h = "\<lambda>x. if ?p x then ?f1 x else x"])
  have t': "scratchCards t' = cs2"
    using consume_frame [OF con] by simp
  show ?thesis
  proof (cases "is_influencer (pp_user pp)")
    case True
    with cs2 have "cs2 = cs1" by simp
    with f1 t' True show ?thesis by simp
  next
    case False
    let ?rtp = "(if double_of (total_revenue (?f1 c)) > 0
                 then fmul (fdiv (double_of (total_payouts (?f1 c)))
                                (double_of (total_revenue (?f1 c)))) 100
                 else 0)"
    from cs2 False f1 have u2: "update_where ?p (\<lambda>x. x\<lparr>current_rtp := ?rtp\<rparr>) cs1 = Inr cs2"
      by simp
    have "find ?p cs2 = Some ((?f1 c)\<lparr>current_rtp := ?rtp\<rparr>)"
      using update_where_Inr [OF u2] f1 pc
      by (simp add: find_map_preserve [where h = "\<lambda>x. if ?p x then x\<lparr>current_rtp := ?rtp\<rparr> else x"])
    with t' False show ?thesis by simp
  qed
qed

lemma play_tx_body_wallet:
  assumes run: "play_tx_body pp gameId g t = Inr (gm, t')"
      and w: "find q (wallets t) = Some w"
      and id: "wallet_id w = wallet_id (pp_wallet pp)"
      and q: "\<And>x b. q (x\<lparr>balance := b\<rparr>) = q x"
  shows "find q (wallets t')
           = Some (w\<lparr>balance := balance w - price (pp_card pp)
                       + (if wins_money (pp_gameResult pp) then pp_amountWon pp else 0)\<rparr>)"
proof -
  let ?p = "\<lambda>w. wallet_id w = wallet_id (pp_wallet pp)"
  let ?debit = "\<lambda>w. w\<lparr>balance := balance w - price (pp_card pp)\<rparr>"
  let ?credit = "\<lambda>w. w\<lparr>balance := balance w + pp_amountWon pp\<rparr>"
  from run obtain ws1 ws2 us cs2 res where
    ws1: "update_where ?p ?debit (wallets t) = Inr ws1" and
    ws2: "(if wins_money (pp_gameResult pp) then update_where ?p ?credit ws1 else Inr ws1) = Inr ws2" and
    con: "consumeCreditsAndAddEarnings (price (pp_card pp)) (user_id (pp_user pp)) (sc_id (pp_card pp))
       (Some (t\<lparr>wallets := ws2, games := games t @ [gm], users := us, scratchCards := cs2\<rparr>)) g
       = Inr (res, t')"
    by (rule play_tx_body_Inr)
  have f1: "find q ws1 = Some (?debit w)"
    using update_where_Inr [OF ws1] w id
    by (simp add: find_map_preserve [where h = "\<lambda>x. if ?p x then ?debit x else x"] q)
  have t': "wallets t' = ws2"
    using consume_frame [OF con] by simp
  show ?thesis
  proof (cases "wins_money (pp_gameResult pp)")
    case True
    with ws2 have u: "update_where ?p ?credit ws1 = Inr ws2" by simp
    have "find q ws2 = Some (?credit (?debit w))"
      using update_where_Inr [OF u] f1 id
      by (simp add: find_map_preserve [where h = "\<lambda>x. if ?p x then ?credit x else x"] q)
    with t' True show ?thesis by simp
  next
    case False
    with ws2 have "ws2 = ws1" by simp
    with f1 t' False show ?thesis by simp
  qed
qed

lemma play_tx_body_games:
  assumes run: "play_tx_body pp gameId g t = Inr (gm, t')"
  shows "games t' = games t @ [gm] \<and> amount_won gm = pp_amountWon pp \<and> game_id gm = gameId"
proof -
  from run obtain ws2 us cs2 res where
    con: "consumeCreditsAndAddEarnings (price (pp_card pp)) (user_id (pp_user pp)) (sc_id (pp_card pp))
       (Some (t\<lparr>wallets := ws2, games := games t @ [gm], users := us, scratchCards := cs2\<rparr>)) g
       = Inr (res, t')"
    and gm: "gm = \<lparr>game_id = gameId, game_userId = user_id (pp_user pp),
           game_scratchCardId = sc_id (pp_card pp), game_prizeId = pp_prizeId pp,
           is_winner = isWinner (pp_gameResult pp), amount_won = pp_amountWon pp,
           game_prize_type = pp_prizeType pp, redemption_choice = False,
           game_status = ''COMPLETED''\<rparr>"
    by (rule play_tx_body_Inr)
  from consume_frame [OF con] gm show ?thesis by simp
qed

lemma play_prechecks_Inr:
  assumes "play_prechecks userId scratchCardId r d = Inr pp"
  obtains u w ws sc chk where
    "find (\<lambda>u. user_id u = userId) (users d) = Some u"
    "filter (\<lambda>w. wallet_userId w = userId) (wallets d) = w # ws"
    "findUnique_active_card scratchCardId d = Some sc"
    "hasEnoughCredits (price sc) d = Inr chk" "chk_success chk"
    "\<not> double_of (balance w) < double_of (price sc)"
    "pp_user pp = u" "pp_wallet pp = w" "pp_card pp = sc"
    "wins_money (pp_gameResult pp) \<or> pp_amountWon pp = 0"
proof -
  from assms obtain u where u: "find (\<lambda>u. user_id u = userId) (users d) = Some u"
    by (auto simp: play_prechecks_def split: option.splits)
  then have uid: "user_id u = userId"
    by (auto simp: find_Some_iff)
  from assms u uid obtain w ws where w: "filter (\<lambda>w. wallet_userId w = userId) (wallets d) = w # ws"
    by (auto simp: play_prechecks_def split: list.splits)
  from assms u uid w obtain sc where sc: "findUnique_active_card scratchCardId d = Some sc"
    by (auto simp: play_prechecks_def split: option.splits)
  from assms u uid w sc obtain chk where chk: "hasEnoughCredits (price sc) d = Inr chk"
    by (auto simp: play_prechecks_def split: sum.splits)
  from assms u uid w sc chk
  have ok: "chk_success chk" "\<not> double_of (balance w) < double_of (price sc)"
    by (auto simp: play_prechecks_def split: if_splits)
  from assms u uid w sc chk ok have pp: "pp_user pp = u" "pp_wallet pp = w" "pp_card pp = sc"
    by (auto simp: play_prechecks_def Let_def)
  from assms u uid w sc chk ok have "wins_money (pp_gameResult pp) \<or> pp_amountWon pp = 0"
    by (auto simp: play_prechecks_def Let_def wins_money_def split: option.splits if_splits)
  with u w sc chk ok pp show thesis by (rule that)
qed

lemma findUnique_active_card_Some:
  "findUnique_active_card scratchCardId d = Some sc
   \<Longrightarrow> find (\<lambda>c. sc_id c = scratchCardId) (scratchCards d) = Some sc \<and> sc_id sc = scratchCardId"
  by (auto simp: findUnique_active_card_def find_Some_iff split: option.splits if_splits)

lemma playScratchCard_Inr:
  assumes "playScratchCard userId scratchCardId r gameId d = (Inr gm, d')"
  obtains pp where "play_prechecks userId scratchCardId r d = Inr pp"
    "play_tx_body pp gameId d d = Inr (gm, d')"
  using assms
  by (auto simp: playScratchCard_def play_transaction_def prisma_transaction_def
           split: sum.splits)

text \<open>
  Claim C6, as stated, fails in the arithmetic of the rationals. A player who is not
  privileged plays and loses on a product with a revenue of 2 and payouts of 1. The
  totals become 3 and 1, and the claim has the stored \<open>current_rtp\<close> be 1/3 times 100.
  The code divides the doubles and multiplies the rounded quotient by 100, and stores
  33.33333333333333, the double 2345624805922133 / 2^46.
\<close>

theorem play_stores_rounded_rtp:
  "map_sum id game_id
      (fst (playScratchCard ''u1'' ''c1'' 50 ''g1''
              (ex_db\<lparr>scratchCards := [ex_card\<lparr>total_revenue := 2, total_payouts := 1\<rparr>]\<rparr>)))
     = Inr ''g1''
   \<and> \<not> is_influencer ex_user
   \<and> map total_revenue
        (scratchCards (snd (playScratchCard ''u1'' ''c1'' 50 ''g1''
              (ex_db\<lparr>scratchCards := [ex_card\<lparr>total_revenue := 2, total_payouts := 1\<rparr>]\<rparr>))))
     = [3]
   \<and> map total_payouts
        (scratchCards (snd (playScratchCard ''u1'' ''c1'' 50 ''g1''
              (ex_db\<lparr>scratchCards := [ex_card\<lparr>total_revenue := 2, total_payouts := 1\<rparr>]\<rparr>))))
     = [1]
   \<and> map current_rtp
        (scratchCards (snd (playScratchCard ''u1'' ''c1'' 50 ''g1''
              (ex_db\<lparr>scratchCards := [ex_card\<lparr>total_revenue := 2, total_payouts := 1\<rparr>]\<rparr>))))
     = [2345624805922133 / 2 ^ 46]
   \<and> (2345624805922133 / 2 ^ 46 :: rat) \<noteq> 1 / 3 * 100"
  by code_simp

text \<open>
  Claim C6, amended: the ratio is computed in JavaScript's numbers. A play that
  succeeds adds the price to the product's \<open>total_revenue\<close>, the amount won to its
  \<open>total_payouts\<close> and 1 to its game count, whoever plays. For a privileged player the
  stored \<open>current_rtp\<close> stays as it was; for any other player it becomes, on the
  updated totals, the double quotient of payouts and revenue multiplied in doubles
  by 100 when the revenue is positive, and 0 otherwise, so 0 when the revenue is 0.
\<close>

theorem play_updates_product_statistics:
  assumes "playScratchCard userId scratchCardId r gameId d = (Inr gm, d')"
  shows "\<exists>u c c'. find (\<lambda>u. user_id u = userId) (users d) = Some u
           \<and> find (\<lambda>c. sc_id c = scratchCardId) (scratchCards d) = Some c
           \<and> find (\<lambda>c. sc_id c = scratchCardId) (scratchCards d') = Some c'
           \<and> total_revenue c' = total_revenue c + price c
           \<and> total_payouts c' = total_payouts c + amount_won gm
           \<and> total_games_played c' = total_games_played c + 1
           \<and> (is_influencer u \<longrightarrow> current_rtp c' = current_rtp c)
           \<and> (\<not> is_influencer u \<longrightarrow>
                current_rtp c'
                  = (if total_revenue c' > 0
                     then fmul (fdiv (double_of (total_payouts c')) (double_of (total_revenue c')))
                            100
                     else 0))
           \<and> (\<not> is_influencer u \<and> total_revenue c' = 0 \<longrightarrow> current_rtp c' = 0)"
proof -
  from assms obtain pp where pre: "play_prechecks userId scratchCardId r d = Inr pp"
    and run: "play_tx_body pp gameId d d = Inr (gm, d')"
    by (rule playScratchCard_Inr)
  from pre obtain u w ws sc chk where u: "find (\<lambda>u. user_id u = userId) (users d) = Some u"
    and "filter (\<lambda>w. wallet_userId w = userId) (wallets d) = w # ws"
    and sc: "findUnique_active_card scratchCardId d = Some sc"
    and "hasEnoughCredits (price sc) d = Inr chk" "chk_success chk"
    and "\<not> double_of (balance w) < double_of (price sc)"
    and pp: "pp_user pp = u" "pp_wallet pp = w" "pp_card pp = sc"
    and "wins_money (pp_gameResult pp) \<or> pp_amountWon pp = 0"
    by (rule play_prechecks_Inr)
  from findUnique_active_card_Some [OF sc]
  have c: "find (\<lambda>c. sc_id c = scratchCardId) (scratchCards d) = Some sc"
    and cid: "sc_id sc = scratchCardId" by simp_all
  from play_tx_body_games [OF run] have won: "amount_won gm = pp_amountWon pp" by simp
  let ?c' = "sc\<lparr>total_revenue := total_revenue sc + price sc,
                 total_payouts := total_payouts sc + pp_amountWon pp,
                 total_games_played := total_games_played sc + 1,
                 current_rtp :=
                   (if is_influencer u then current_rtp sc
                    else if double_of (total_revenue sc + price sc) > 0
                         then fmul (fdiv (double_of (total_payouts sc + pp_amountWon pp))
                                        (double_of (total_revenue sc + price sc))) 100
                         else 0)\<rparr>"
  from play_tx_body_card [OF run] c pp cid
  have c': "find (\<lambda>c. sc_id c = scratchCardId) (scratchCards d') = Some ?c'"
    by simp
  have "total_revenue ?c' = total_revenue sc + price sc
           \<and> total_payouts ?c' = total_payouts sc + amount_won gm
           \<and> total_games_played ?c' = total_games_played sc + 1
           \<and> (is_influencer u \<longrightarrow> current_rtp ?c' = current_rtp sc)
           \<and> (\<not> is_influencer u \<longrightarrow>
                current_rtp ?c'
                  = (if total_revenue ?c' > 0
                     then fmul (fdiv (double_of (total_payouts ?c')) (double_of (total_revenue ?c')))
                            100
                     else 0))
           \<and> (\<not> is_influencer u \<and> total_revenue ?c' = 0 \<longrightarrow> current_rtp ?c' = 0)"
    by (simp add: won double_of_pos_iff)
  with u c c' show ?thesis by blast
qed

theorem play_updates_product_statistics_witness:
  "(\<exists>gm d' c'. playScratchCard ''u1'' ''c1'' 50 ''g1''
                  (ex_db\<lparr>scratchCards := [ex_card\<lparr>total_revenue := 2, total_payouts := 1\<rparr>]\<rparr>)
                = (Inr gm, d')
        \<and> \<not> is_influencer ex_user
        \<and> find (\<lambda>c. sc_id c = ''c1'') (scratchCards d') = Some c'
        \<and> total_revenue c' = 3 \<and> total_payouts c' = 1
        \<and> current_rtp c' = 2345624805922133 / 2 ^ 46)
   \<and> (\<exists>gm d' c'. playScratchCard ''u1'' ''c1'' 50 ''g1''
                     (ex_db_prize\<lparr>users := [ex_user\<lparr>is_influencer := True\<rparr>]\<rparr>) = (Inr gm, d')
        \<and> find (\<lambda>c. sc_id c = ''c1'') (scratchCards d') = Some c'
        \<and> total_revenue c' = 1 \<and> total_payouts c' = 10 \<and> current_rtp c' = 0)"
proof -
  let ?c = "ex_card\<lparr>total_revenue := 2, total_payouts := 1\<rparr>"
  let ?d = "ex_db\<lparr>scratchCards := [?c]\<rparr>"
  let ?dI = "ex_db_prize\<lparr>users := [ex_user\<lparr>is_influencer := True\<rparr>]\<rparr>"
  have "map_sum id amount_won (fst (playScratchCard ''u1'' ''c1'' 50 ''g1'' ?d)) = Inr 0"
    by code_simp
  then obtain gm d' where run: "playScratchCard ''u1'' ''c1'' 50 ''g1'' ?d = (Inr gm, d')"
    and won: "amount_won gm = 0"
    by (cases "playScratchCard ''u1'' ''c1'' 50 ''g1'' ?d";
        cases "fst (playScratchCard ''u1'' ''c1'' 50 ''g1'' ?d)") auto
  have "map_sum id amount_won (fst (playScratchCard ''u1'' ''c1'' 50 ''g1'' ?dI)) = Inr 10"
    by code_simp
  then obtain gmI dI' where runI: "playScratchCard ''u1'' ''c1'' 50 ''g1'' ?dI = (Inr gmI, dI')"
    and wonI: "amount_won gmI = 10"
    by (cases "playScratchCard ''u1'' ''c1'' 50 ''g1'' ?dI";
        cases "fst (playScratchCard ''u1'' ''c1'' 50 ''g1'' ?dI)") auto
  have u: "find (\<lambda>u. user_id u = ''u1'') (users ?d) = Some ex_user"
    and c: "find (\<lambda>c. sc_id c = ''c1'') (scratchCards ?d) = Some ?c"
    and uI: "find (\<lambda>u. user_id u = ''u1'') (users ?dI) = Some (ex_user\<lparr>is_influencer := True\<rparr>)"
    and cI: "find (\<lambda>c. sc_id c = ''c1'') (scratchCards ?dI) = Some ex_card"
    by (simp_all add: ex_defs')
  have v: "\<not> is_influencer ex_user" "total_revenue ex_card = 0" "total_payouts ex_card = 0"
    "price ex_card = 1" "current_rtp ex_card = 0" "is_influencer (ex_user\<lparr>is_influencer := True\<rparr>)"
    by (simp_all add: ex_defs')
  have q: "fmul (fdiv (double_of 1) (double_of 3)) 100 = 2345624805922133 / 2 ^ 46"
    by code_simp
  from play_updates_product_statistics [OF run] u c won v
  have A: "\<exists>c'. find (\<lambda>c. sc_id c = ''c1'') (scratchCards d') = Some c'
        \<and> total_revenue c' = 3 \<and> total_payouts c' = 1
        \<and> current_rtp c' = fmul (fdiv (double_of 1) (double_of 3)) 100"
    by auto
  from play_updates_product_statistics [OF runI] uI cI wonI v
  have B: "\<exists>c'. find (\<lambda>c. sc_id c = ''c1'') (scratchCards dI') = Some c'
        \<and> total_revenue c' = 1 \<and> total_payouts c' = 10 \<and> current_rtp c' = 0"
    by auto
  from A B run runI v(1) show ?thesis unfolding q by blast
qed

text \<open>
  Claim C5, as stated, fails on two inputs. With a balance of 1/2 below the price 1
  and an inactive license, the play is refused for the license, not for insufficient
  funds, since the license check comes before the balance check. With a balance of
  0.99999999999999999 below the price 1, the double of the balance is 1, the check
  \<^verbatim>\<open>Number(wallet.balance) < Number(price)\<close> does not fire, and the play goes through:
  a game record is created and the wallet is debited.
\<close>

theorem play_low_balance_inactive_license:
  "balance (ex_wallet\<lparr>balance := 1 / 2\<rparr>) < price ex_card
   \<and> playScratchCard ''u1'' ''c1'' 50 ''g1''
        (ex_db\<lparr>wallets := [ex_wallet\<lparr>balance := 1 / 2\<rparr>],
               licenses := [ex_license\<lparr>license_is_active := False\<rparr>]\<rparr>)
      = (Inl (LicenseUnavailable ''Licenca inativa''),
         ex_db\<lparr>wallets := [ex_wallet\<lparr>balance := 1 / 2\<rparr>],
               licenses := [ex_license\<lparr>license_is_active := False\<rparr>]\<rparr>)
   \<and> fst (playScratchCard ''u1'' ''c1'' 50 ''g1''
        (ex_db\<lparr>wallets := [ex_wallet\<lparr>balance := 1 / 2\<rparr>],
               licenses := [ex_license\<lparr>license_is_active := False\<rparr>]\<rparr>))
      \<noteq> Inl InsufficientFunds
   \<and> balance (ex_wallet\<lparr>balance := 99999999999999999 / 10 ^ 17\<rparr>) < price ex_card
   \<and> double_of (99999999999999999 / 10 ^ 17) = 1
   \<and> map_sum id game_id
        (fst (playScratchCard ''u1'' ''c1'' 50 ''g1''
          (ex_db\<lparr>wallets := [ex_wallet\<lparr>balance := 99999999999999999 / 10 ^ 17\<rparr>]\<rparr>)))
      = Inr ''g1''
   \<and> map game_id
        (games (snd (playScratchCard ''u1'' ''c1'' 50 ''g1''
          (ex_db\<lparr>wallets := [ex_wallet\<lparr>balance := 99999999999999999 / 10 ^ 17\<rparr>]\<rparr>))))
      = [''g1'']
   \<and> map balance
        (wallets (snd (playScratchCard ''u1'' ''c1'' 50 ''g1''
          (ex_db\<lparr>wallets := [ex_wallet\<lparr>balance := 99999999999999999 / 10 ^ 17\<rparr>]\<rparr>))))
      = [99999999999999999 / 10 ^ 17 - 1]"
  by code_simp

text \<open>
  Claim C5, amended. For a player with a wallet and an active product, a play whose
  balance is below the price as the code compares them, in doubles, fails in the
  checks made before the transaction opens and leaves the store as it was, so no game
  record is created and the balance is unchanged; the error is \<open>InsufficientFunds\<close>
  when the license check succeeds and the license's error otherwise. What the debit
  inside the transaction may do to the balance is not part of the amended claim.
\<close>

theorem play_insufficient_balance:
  assumes u: "find (\<lambda>u. user_id u = userId) (users d) = Some u"
      and w: "filter (\<lambda>w. wallet_userId w = userId) (wallets d) = w # ws"
      and sc: "findUnique_active_card scratchCardId d = Some sc"
      and low: "double_of (balance w) < double_of (price sc)"
  shows "play_prechecks userId scratchCardId r d
           = Inl (case hasEnoughCredits (price sc) d of
                    Inl e \<Rightarrow> e
                  | Inr chk \<Rightarrow> if chk_success chk then InsufficientFunds
                               else LicenseUnavailable (chk_message chk))
       \<and> playScratchCard userId scratchCardId r gameId d
           = (Inl (case hasEnoughCredits (price sc) d of
                     Inl e \<Rightarrow> e
                   | Inr chk \<Rightarrow> if chk_success chk then InsufficientFunds
                                else LicenseUnavailable (chk_message chk)), d)
       \<and> games (snd (playScratchCard userId scratchCardId r gameId d)) = games d
       \<and> wallets (snd (playScratchCard userId scratchCardId r gameId d)) = wallets d"
proof -
  from u have uid: "user_id u = userId" by (auto simp: find_Some_iff)
  from u uid w sc low
  have pre: "play_prechecks userId scratchCardId r d
           = Inl (case hasEnoughCredits (price sc) d of
                    Inl e \<Rightarrow> e
                  | Inr chk \<Rightarrow> if chk_success chk then InsufficientFunds
                               else LicenseUnavailable (chk_message chk))"
    by (simp add: play_prechecks_def split: sum.splits)
  then show ?thesis
    by (simp add: playScratchCard_def)
qed

theorem play_insufficient_balance_witness:
  "double_of (balance (ex_wallet\<lparr>balance := 1 / 2\<rparr>)) < double_of (price ex_card)
   \<and> playScratchCard ''u1'' ''c1'' 50 ''g1'' (ex_db\<lparr>wallets := [ex_wallet\<lparr>balance := 1 / 2\<rparr>]\<rparr>)
       = (Inl InsufficientFunds, ex_db\<lparr>wallets := [ex_wallet\<lparr>balance := 1 / 2\<rparr>]\<rparr>)
   \<and> play_prechecks ''u1'' ''c1'' 50
        (ex_db\<lparr>wallets := [ex_wallet\<lparr>balance := 1 / 2\<rparr>],
               licenses := [ex_license\<lparr>license_is_active := False\<rparr>]\<rparr>)
       = Inl (LicenseUnavailable ''Licenca inativa'')"
proof -
  let ?w = "ex_wallet\<lparr>balance := 1 / 2\<rparr>"
  let ?d = "ex_db\<lparr>wallets := [?w]\<rparr>"
  let ?e = "ex_db\<lparr>wallets := [?w], licenses := [ex_license\<lparr>license_is_active := False\<rparr>]\<rparr>"
  have u: "find (\<lambda>u. user_id u = ''u1'') (users ?d) = Some ex_user"
    and w: "filter (\<lambda>w. wallet_userId w = ''u1'') (wallets ?d) = ?w # []"
    and sc: "findUnique_active_card ''c1'' ?d = Some ex_card"
    and u': "find (\<lambda>u. user_id u = ''u1'') (users ?e) = Some ex_user"
    and w': "filter (\<lambda>w. wallet_userId w = ''u1'') (wallets ?e) = ?w # []"
    and sc': "findUnique_active_card ''c1'' ?e = Some ex_card"
    by (simp_all add: ex_defs' findUnique_active_card_def)
  have low: "double_of (balance ?w) < double_of (price ex_card)"
    by code_simp
  have chk: "hasEnoughCredits (price ex_card) ?d = Inr (EnoughCredits 1 1 ex_license)"
    by code_simp
  have chk': "hasEnoughCredits (price ex_card) ?e
                = Inr (LicenseInactive (ex_license\<lparr>license_is_active := False\<rparr>))"
    by (simp add: hasEnoughCredits_def getCurrentLicense_def ex_defs')
  from play_insufficient_balance [OF u w sc low, of 50 "''g1''"] chk
  have A: "playScratchCard ''u1'' ''c1'' 50 ''g1'' ?d = (Inl InsufficientFunds, ?d)"
    by simp
  from play_insufficient_balance [OF u' w' sc' low, of 50 "''g1''"] chk'
  have B: "play_prechecks ''u1'' ''c1'' 50 ?e = Inl (LicenseUnavailable ''Licenca inativa'')"
    by simp
  from low A B show ?thesis by simp
qed

text \<open>
  The balance check is made before the transaction and the debit inside it is
  unconditional. When two plays pass the check on a balance of 1 and their
  transactions then run one after the other, the second debit takes the balance
  to -1.
\<close>

lemma interleaved_plays_overdraw:
  "(case play_prechecks ''u1'' ''c1'' 50
           (ex_db\<lparr>wallets := [ex_wallet\<lparr>balance := 1\<rparr>],
                  licenses := [ex_license\<lparr>credits := 2\<rparr>]\<rparr>) of
      Inl e \<Rightarrow> False
    | Inr pp \<Rightarrow>
       (case play_transaction pp ''g1''
               (ex_db\<lparr>wallets := [ex_wallet\<lparr>balance := 1\<rparr>],
                      licenses := [ex_license\<lparr>credits := 2\<rparr>]\<rparr>) of
          (r1, d1) \<Rightarrow>
            map balance (wallets d1) = [0]
            \<and> (case play_transaction pp ''g2'' d1 of
                  (r2, d2) \<Rightarrow> map_sum id game_id r2 = Inr ''g2''
                              \<and> map balance (wallets d2) = [- 1])))"
  by code_simp

text \<open>
  Claim C1. The claim has a failed consumption abort the play. The play drops the
  value \<open>consumeCreditsAndAddEarnings\<close> returns, and a refusal is returned, not
  thrown. Two plays pass their checks on a store whose license holds one credit; the
  transaction of the first consumes it; in the transaction of the second the
  consumption is refused, and that play still commits: the wallet is debited again,
  the second game record is stored and the product's revenue grows, while the license
  and the usage records stay as the first play left them.
\<close>

theorem play_commits_when_consumption_is_refused:
  "(case play_prechecks ''u1'' ''c1'' 50 ex_db of
      Inl e \<Rightarrow> False
    | Inr pp \<Rightarrow>
       (case play_transaction pp ''g1'' ex_db of
          (r1, d1) \<Rightarrow>
            map credits (licenses d1) = [0]
            \<and> map_sum id (\<lambda>(res, t). cr_success res)
                 (consumeCreditsAndAddEarnings 1 ''u1'' ''c1'' (Some d1) d1) = Inr False
            \<and> (case play_transaction pp ''g2'' d1 of
                  (r2, d2) \<Rightarrow>
                    map_sum id game_id r2 = Inr ''g2''
                    \<and> map balance (wallets d1) = [4]
                    \<and> map balance (wallets d2) = [3]
                    \<and> map game_id (games d2) = [''g1'', ''g2'']
                    \<and> map total_revenue (scratchCards d2) = [2]
                    \<and> licenses d2 = licenses d1
                    \<and> usageLicenses d2 = usageLicenses d1)))"
  by code_simp
section \<open>Properties of the redemption choice\<close>

lemmas redeem_defs = chooseRedemption_def chooseRedemption_body_def prisma_transaction_def
  prize_of_game_def choose_money_def choose_product_def update_where_def Number_of_def

lemmas ex_defs'' = ex_defs' ex_product_prize_def ex_game_def ex_db_game_def

lemma chooseRedemption_Inr:
  assumes "chooseRedemption userId gameId choice d = (Inr gm', d')"
  obtains gm pz w ws where
    "find (\<lambda>gm. game_id gm = gameId \<and> game_userId gm = userId \<and> is_winner gm
                   \<and> game_status gm = ''COMPLETED'') (games d) = Some gm"
    "prize_of_game gm d = Some pz" "prize_kind pz = ''PRODUCT''"
    "\<not> redemption_choice gm"
    "filter (\<lambda>w. wallet_userId w = userId) (wallets d) = w # ws"
    "(choice = ''money'' \<and> 0 < Number_of (redemption_value pz)
        \<and> gm' = choose_money (Number_of (redemption_value pz)) gm
        \<and> games d' = map (\<lambda>x. if game_id x = gameId
                                 then choose_money (Number_of (redemption_value pz)) x else x) (games d)
        \<and> prizes d' = prizes d)
     \<or> (choice = ''product'' \<and> gm' = choose_product gm
        \<and> games d' = map (\<lambda>x. if game_id x = gameId then choose_product x else x) (games d)
        \<and> wallets d' = wallets d)"
proof -
  let ?elig = "\<lambda>gm. game_id gm = gameId \<and> game_userId gm = userId \<and> is_winner gm
                   \<and> game_status gm = ''COMPLETED''"
  from assms have body: "chooseRedemption_body userId gameId choice d = Inr (gm', d')"
    by (auto simp: chooseRedemption_def prisma_transaction_def split: sum.splits)
  then obtain gm where gm: "find ?elig (games d) = Some gm"
    by (auto simp: chooseRedemption_body_def split: option.splits)
  then have uid: "game_userId gm = userId" by (auto simp: find_Some_iff)
  from body gm obtain pz where pz: "prize_of_game gm d = Some pz"
    by (auto simp: chooseRedemption_body_def split: option.splits)
  from body gm pz have kind: "prize_kind pz = ''PRODUCT''" and und: "\<not> redemption_choice gm"
    by (auto simp: chooseRedemption_body_def split: if_splits)
  from body gm pz kind und uid obtain w ws where
    w: "filter (\<lambda>w. wallet_userId w = userId) (wallets d) = w # ws"
    by (auto simp: chooseRedemption_body_def split: list.splits)
  from body gm pz kind und uid w
  have "(choice = ''money'' \<and> 0 < Number_of (redemption_value pz)
        \<and> gm' = choose_money (Number_of (redemption_value pz)) gm
        \<and> games d' = map (\<lambda>x. if game_id x = gameId
                                 then choose_money (Number_of (redemption_value pz)) x else x) (games d)
        \<and> prizes d' = prizes d)
     \<or> (choice = ''product'' \<and> gm' = choose_product gm
        \<and> games d' = map (\<lambda>x. if game_id x = gameId then choose_product x else x) (games d)
        \<and> wallets d' = wallets d)"
    by (auto simp: chooseRedemption_body_def Let_def update_where_def split: if_splits sum.splits)
  with gm pz kind und w show thesis by (rule that)
qed

lemma find_after_choose_product:
  "find (\<lambda>gm. game_id gm = gameId \<and> game_userId gm = userId \<and> is_winner gm
                   \<and> game_status gm = ''COMPLETED'')
     (map (\<lambda>x. if game_id x = gameId then choose_product x else x) gs) = None"
  by (induction gs) (simp_all add: choose_product_def)

lemma update_where_find:
  "find p xs = Some x \<Longrightarrow> update_where p f xs = Inr (map (\<lambda>y. if p y then f y else y) xs)"
  by (auto simp: update_where_def list_ex_iff find_Some_iff)

text \<open>
  Claim C3, as stated, fails: after the player has chosen the product, the game is in
  status \<open>PENDING_DELIVERY\<close> with \<open>redemption_choice\<close> still false, so a second call
  does not find it among the completed games and fails with \<open>GameNotEligible\<close>, not
  with \<open>AlreadyRedeemed\<close>.
\<close>

theorem second_call_after_product_choice:
  "(case chooseRedemption ''u1'' ''g1'' ''product'' ex_db_game of
      (r1, d1) \<Rightarrow>
        map_sum id game_status r1 = Inr ''PENDING_DELIVERY''
        \<and> chooseRedemption ''u1'' ''g1'' ''money'' d1 = (Inl GameNotEligible, d1)
        \<and> fst (chooseRedemption ''u1'' ''g1'' ''money'' d1) \<noteq> Inl AlreadyRedeemed)"
  by (simp add: redeem_defs ex_defs'' Let_def)

text \<open>
  Claim C3, amended. After one successful \<open>chooseRedemption\<close> for a game, every
  further call by the same player for that game fails and leaves the store as it is,
  whatever choice it names: with \<open>AlreadyRedeemed\<close> after a money choice, with
  \<open>GameNotEligible\<close> after a product choice. So no run of further calls changes the
  store, and the wallet is credited at most once for the game.
\<close>

theorem redemption_is_exactly_once:
  assumes first: "chooseRedemption userId gameId choice d = (Inr gm', d')"
  shows "chooseRedemption userId gameId choice2 d'
           = (Inl (if choice = ''money'' then AlreadyRedeemed else GameNotEligible), d')
       \<and> chooseRedemption_calls userId gameId choices d' = d'"
proof -
  let ?elig = "\<lambda>gm. game_id gm = gameId \<and> game_userId gm = userId \<and> is_winner gm
                   \<and> game_status gm = ''COMPLETED''"
  from first obtain gm pz where gm: "find ?elig (games d) = Some gm"
    and pz: "prize_of_game gm d = Some pz" "prize_kind pz = ''PRODUCT''"
    and cases: "(choice = ''money'' \<and> 0 < Number_of (redemption_value pz)
        \<and> gm' = choose_money (Number_of (redemption_value pz)) gm
        \<and> games d' = map (\<lambda>x. if game_id x = gameId
                                 then choose_money (Number_of (redemption_value pz)) x else x) (games d)
        \<and> prizes d' = prizes d)
     \<or> (choice = ''product'' \<and> gm' = choose_product gm
        \<and> games d' = map (\<lambda>x. if game_id x = gameId then choose_product x else x) (games d)
        \<and> wallets d' = wallets d)"
    by (rule chooseRedemption_Inr)
  from gm have gid: "game_id gm = gameId" by (auto simp: find_Some_iff)
  have second: "chooseRedemption userId gameId c d'
           = (Inl (if choice = ''money'' then AlreadyRedeemed else GameNotEligible), d')" for c
    using cases
  proof
    assume m: "choice = ''money'' \<and> 0 < Number_of (redemption_value pz)
        \<and> gm' = choose_money (Number_of (redemption_value pz)) gm
        \<and> games d' = map (\<lambda>x. if game_id x = gameId
                                 then choose_money (Number_of (redemption_value pz)) x else x) (games d)
        \<and> prizes d' = prizes d"
    let ?h = "\<lambda>x. if game_id x = gameId
                   then choose_money (Number_of (redemption_value pz)) x else x"
    have "find ?elig (games d') = map_option ?h (find ?elig (games d))"
      using m by (simp add: find_map_preserve [where h = ?h] choose_money_def)
    with gm gid have f: "find ?elig (games d')
                           = Some (choose_money (Number_of (redemption_value pz)) gm)"
      by simp
    from m have pr: "prizes d' = prizes d" by simp
    have "prize_of_game (choose_money (Number_of (redemption_value pz)) gm) d'
            = prize_of_game gm d"
      unfolding prize_of_game_def choose_money_def pr by simp
    with pz have p: "prize_of_game (choose_money (Number_of (redemption_value pz)) gm) d' = Some pz"
      by simp
    from m have ch: "choice = ''money''" by simp
    have rc: "redemption_choice (choose_money (Number_of (redemption_value pz)) gm)"
      by (simp add: choose_money_def)
    have "chooseRedemption_body userId gameId c d' = Inl AlreadyRedeemed"
      unfolding chooseRedemption_body_def using f p pz(2) rc by simp
    with ch show ?thesis
      by (simp add: chooseRedemption_def prisma_transaction_def)
  next
    assume p: "choice = ''product'' \<and> gm' = choose_product gm
        \<and> games d' = map (\<lambda>x. if game_id x = gameId then choose_product x else x) (games d)
        \<and> wallets d' = wallets d"
    from p have gs: "games d' = map (\<lambda>x. if game_id x = gameId then choose_product x else x)
                                   (games d)"
      by simp
    have "find ?elig (games d') = None"
      unfolding gs by (rule find_after_choose_product)
    then have "chooseRedemption_body userId gameId c d' = Inl GameNotEligible"
      unfolding chooseRedemption_body_def by simp
    moreover from p have "choice \<noteq> ''money''" by simp
    ultimately show ?thesis
      by (simp add: chooseRedemption_def prisma_transaction_def)
  qed
  have "chooseRedemption_calls userId gameId choices d' = d'"
    by (induction choices) (simp_all add: second)
  with second show ?thesis by simp
qed

theorem redemption_is_exactly_once_witness:
  "(\<exists>gm' d'. chooseRedemption ''u1'' ''g1'' ''money'' ex_db_game = (Inr gm', d')
       \<and> map balance (wallets d') = [55]
       \<and> chooseRedemption ''u1'' ''g1'' ''money'' d' = (Inl AlreadyRedeemed, d')
       \<and> chooseRedemption_calls ''u1'' ''g1'' [''money'', ''product'', ''money''] d' = d')
   \<and> (\<exists>gm' d'. chooseRedemption ''u1'' ''g1'' ''product'' ex_db_game = (Inr gm', d')
       \<and> map balance (wallets d') = [5]
       \<and> chooseRedemption ''u1'' ''g1'' ''money'' d' = (Inl GameNotEligible, d')
       \<and> chooseRedemption_calls ''u1'' ''g1'' [''money'', ''product'', ''money''] d' = d')"
proof -
  have "\<exists>gm' d'. chooseRedemption ''u1'' ''g1'' ''money'' ex_db_game = (Inr gm', d')
          \<and> map balance (wallets d') = [55]"
    by (simp add: redeem_defs ex_defs'' Let_def)
  then obtain gm1 d1 where m: "chooseRedemption ''u1'' ''g1'' ''money'' ex_db_game = (Inr gm1, d1)"
    and b1: "map balance (wallets d1) = [55]" by auto
  have "\<exists>gm' d'. chooseRedemption ''u1'' ''g1'' ''product'' ex_db_game = (Inr gm', d')
          \<and> map balance (wallets d') = [5]"
    by (simp add: redeem_defs ex_defs'' Let_def)
  then obtain gm2 d2 where p: "chooseRedemption ''u1'' ''g1'' ''product'' ex_db_game = (Inr gm2, d2)"
    and b2: "map balance (wallets d2) = [5]" by auto
  note A = redemption_is_exactly_once [OF m, of "''money''" "[''money'', ''product'', ''money'']"]
  have A1: "chooseRedemption ''u1'' ''g1'' ''money'' d1 = (Inl AlreadyRedeemed, d1)"
    using conjunct1 [OF A] by simp
  have A2: "chooseRedemption_calls ''u1'' ''g1'' [''money'', ''product'', ''money''] d1 = d1"
    by (rule conjunct2 [OF A])
  note B = redemption_is_exactly_once [OF p, of "''money''" "[''money'', ''product'', ''money'']"]
  have B1: "chooseRedemption ''u1'' ''g1'' ''money'' d2 = (Inl GameNotEligible, d2)"
    using conjunct1 [OF B] by simp
  have B2: "chooseRedemption_calls ''u1'' ''g1'' [''money'', ''product'', ''money''] d2 = d2"
    by (rule conjunct2 [OF B])
  have L: "\<exists>gm' d'. chooseRedemption ''u1'' ''g1'' ''money'' ex_db_game = (Inr gm', d')
       \<and> map balance (wallets d') = [55]
       \<and> chooseRedemption ''u1'' ''g1'' ''money'' d' = (Inl AlreadyRedeemed, d')
       \<and> chooseRedemption_calls ''u1'' ''g1'' [''money'', ''product'', ''money''] d' = d'"
    by (rule exI [of _ gm1], rule exI [of _ d1]) (intro conjI m b1 A1 A2)
  have R: "\<exists>gm' d'. chooseRedemption ''u1'' ''g1'' ''product'' ex_db_game = (Inr gm', d')
       \<and> map balance (wallets d') = [5]
       \<and> chooseRedemption ''u1'' ''g1'' ''money'' d' = (Inl GameNotEligible, d')
       \<and> chooseRedemption_calls ''u1'' ''g1'' [''money'', ''product'', ''money''] d' = d'"
    by (rule exI [of _ gm2], rule exI [of _ d2]) (intro conjI p b2 B1 B2)
  from L R show ?thesis by (rule conjI)
qed

text \<open>
  Claim C7. For a completed winning game of the player whose prize is a product with
  a positive redemption value, not yet decided, with the player's wallet and the
  game's card in the store, choosing money succeeds: the wallet's balance grows by
  exactly the redemption value, the game gets \<open>redemption_choice\<close> true,
  \<open>amount_won\<close> the redemption value and prize type \<open>REDEMPTION\<close>, and the card's
  \<open>total_payouts\<close> grows by the redemption value; users, prizes and the license
  tables stay as they were.
\<close>

theorem choose_money_effects:
  assumes gm: "find (\<lambda>gm. game_id gm = gameId \<and> game_userId gm = userId \<and> is_winner gm
                          \<and> game_status gm = ''COMPLETED'') (games d) = Some gm"
      and pz: "prize_of_game gm d = Some pz"
      and kind: "prize_kind pz = ''PRODUCT''"
      and und: "\<not> redemption_choice gm"
      and w: "filter (\<lambda>w. wallet_userId w = userId) (wallets d) = w # ws"
      and rv: "redemption_value pz = Some rv" "0 < rv"
      and c: "find (\<lambda>c. sc_id c = game_scratchCardId gm) (scratchCards d) = Some c"
  shows "\<exists>d'. chooseRedemption userId gameId ''money'' d
                = (Inr (gm\<lparr>redemption_choice := True, amount_won := rv,
                          game_prize_type := Some ''REDEMPTION''\<rparr>), d')
           \<and> find (\<lambda>w. wallet_userId w = userId) (wallets d')
                = Some (w\<lparr>balance := balance w + rv\<rparr>)
           \<and> find (\<lambda>gm. game_id gm = gameId \<and> game_userId gm = userId \<and> is_winner gm
                          \<and> game_status gm = ''COMPLETED'') (games d')
                = Some (gm\<lparr>redemption_choice := True, amount_won := rv,
                          game_prize_type := Some ''REDEMPTION''\<rparr>)
           \<and> find (\<lambda>c. sc_id c = game_scratchCardId gm) (scratchCards d')
                = Some (c\<lparr>total_payouts := total_payouts c + rv\<rparr>)
           \<and> users d' = users d \<and> prizes d' = prizes d
           \<and> licenses d' = licenses d \<and> usageLicenses d' = usageLicenses d"
proof -
  let ?elig = "\<lambda>gm. game_id gm = gameId \<and> game_userId gm = userId \<and> is_winner gm
                          \<and> game_status gm = ''COMPLETED''"
  let ?hw = "\<lambda>x. if wallet_id x = wallet_id w then x\<lparr>balance := balance x + rv\<rparr> else x"
  let ?hg = "\<lambda>x. if game_id x = gameId then choose_money rv x else x"
  let ?hc = "\<lambda>x. if sc_id x = game_scratchCardId gm
                  then x\<lparr>total_payouts := total_payouts x + rv\<rparr> else x"
  let ?d' = "d\<lparr>wallets := map ?hw (wallets d), games := map ?hg (games d),
               scratchCards := map ?hc (scratchCards d)\<rparr>"
  from gm have gin: "gm \<in> set (games d)" and gid: "game_id gm = gameId"
    and uid: "game_userId gm = userId"
    by (auto simp: find_Some_iff)
  have "w \<in> set (filter (\<lambda>w. wallet_userId w = userId) (wallets d))"
    unfolding w by simp
  then have win: "w \<in> set (wallets d)" by simp
  from c have cid: "sc_id c = game_scratchCardId gm" by (auto simp: find_Some_iff)
  have n: "Number_of (redemption_value pz) = rv" using rv by (simp add: Number_of_def)
  have uw: "update_where (\<lambda>x. wallet_id x = wallet_id w) (\<lambda>x. x\<lparr>balance := balance x + rv\<rparr>)
              (wallets d) = Inr (map ?hw (wallets d))"
    using win by (simp add: update_where_member)
  have ug: "update_where (\<lambda>x. game_id x = gameId) (choose_money rv) (games d)
              = Inr (map ?hg (games d))"
    using gin gid by (simp add: update_where_member)
  have uc: "update_where (\<lambda>x. sc_id x = game_scratchCardId gm)
              (\<lambda>x. x\<lparr>total_payouts := total_payouts x + rv\<rparr>) (scratchCards d)
              = Inr (map ?hc (scratchCards d))"
    using c by (simp add: update_where_find)
  have body: "chooseRedemption_body userId gameId ''money'' d = Inr (choose_money rv gm, ?d')"
    unfolding chooseRedemption_body_def
    using gm pz kind und w uid n rv(2) uw ug uc by (simp add: Let_def)
  then have run: "chooseRedemption userId gameId ''money'' d = (Inr (choose_money rv gm), ?d')"
    by (simp add: chooseRedemption_def prisma_transaction_def)
  have fw: "find (\<lambda>w. wallet_userId w = userId) (wallets ?d') = Some (w\<lparr>balance := balance w + rv\<rparr>)"
    using filter_Cons_find [OF w]
    by (simp add: find_map_preserve [where h = ?hw])
  have fg: "find ?elig (games ?d') = Some (choose_money rv gm)"
    using gm gid by (simp add: find_map_preserve [where h = ?hg] choose_money_def)
  have fc: "find (\<lambda>c. sc_id c = game_scratchCardId gm) (scratchCards ?d')
              = Some (c\<lparr>total_payouts := total_payouts c + rv\<rparr>)"
    using c cid by (simp add: find_map_preserve [where h = ?hc])
  have cm: "choose_money rv gm = gm\<lparr>redemption_choice := True, amount_won := rv,
                          game_prize_type := Some ''REDEMPTION''\<rparr>"
    by (simp add: choose_money_def)
  show ?thesis
    apply (rule exI [of _ ?d'])
    using run fw fg fc unfolding cm by simp
qed

theorem choose_money_effects_witness:
  "\<exists>d'. chooseRedemption ''u1'' ''g1'' ''money'' ex_db_game
           = (Inr (ex_game\<lparr>redemption_choice := True, amount_won := 50,
                           game_prize_type := Some ''REDEMPTION''\<rparr>), d')
      \<and> find (\<lambda>w. wallet_userId w = ''u1'') (wallets d') = Some (ex_wallet\<lparr>balance := 55\<rparr>)
      \<and> find (\<lambda>c. sc_id c = ''c1'') (scratchCards d') = Some (ex_card\<lparr>total_payouts := 50\<rparr>)"
proof -
  have gm: "find (\<lambda>gm. game_id gm = ''g1'' \<and> game_userId gm = ''u1'' \<and> is_winner gm
                          \<and> game_status gm = ''COMPLETED'') (games ex_db_game) = Some ex_game"
    and pz: "prize_of_game ex_game ex_db_game = Some ex_product_prize"
    and kind: "prize_kind ex_product_prize = ''PRODUCT''"
    and und: "\<not> redemption_choice ex_game"
    and w: "filter (\<lambda>w. wallet_userId w = ''u1'') (wallets ex_db_game) = ex_wallet # []"
    and rv: "redemption_value ex_product_prize = Some 50" "(0::rat) < 50"
    and c: "find (\<lambda>c. sc_id c = game_scratchCardId ex_game) (scratchCards ex_db_game) = Some ex_card"
    by (simp_all add: ex_defs'' prize_of_game_def)
  have v: "balance ex_wallet + 50 = 55" "total_payouts ex_card + 50 = 50"
    "game_scratchCardId ex_game = ''c1''"
    by (simp_all add: ex_defs'')
  from choose_money_effects [OF gm pz kind und w rv c]
  show ?thesis unfolding v by blast
qed

section \<open>Properties of the prize administration\<close>

lemmas admin_defs = addPrizeToScratchCard_def updatePrize_def validatePrizeData_def
  validatePrizeType_def validateProbability_def validatePrizesData_def prize_row_def
  apply_prize_update_def truthy_def trim_def is_space_def active_probability_sum_def
  update_where_def Number_of_def

lemma validate_each_foldl:
  "validate_each tot pds = Inr t
   \<Longrightarrow> t = foldl (\<lambda>acc pd. fadd acc (double_of (pd_probability pd))) tot pds"
proof (induction pds arbitrary: tot)
  case Nil
  then show ?case by simp
next
  case (Cons pd pds)
  from Cons.prems have "validate_each (fadd tot (double_of (pd_probability pd))) pds = Inr t"
    by (auto split: sum.splits)
  from Cons.IH [OF this] show ?case by simp
qed

text \<open>
  Creating a card validates the sum: a creation that succeeds found the
  probabilities of its prizes, added one by one in doubles, at most 100, and stored
  one row per prize. A list whose probabilities add up to 150 is refused, and so is
  the list 0.2, 83.9, 15.9, whose double sum is 100.00000000000001.
\<close>

lemma createScratchCardWithPrizes_sum:
  assumes "createScratchCardWithPrizes sc pds newId d = (Inr sc', d')"
  shows "foldl (\<lambda>acc pd. fadd acc (double_of (pd_probability pd))) 0 pds \<le> 100
         \<and> prizes d' = prizes d @
               map (\<lambda>(k, pd). prize_row (newId k) (sc_id sc) pd) (enumerate 0 pds)"
proof -
  from assms have v: "validatePrizesData pds = Inr ()"
    and d': "d' = d\<lparr>scratchCards := scratchCards d @ [sc],
             prizes := prizes d @
               map (\<lambda>(k, pd). prize_row (newId k) (sc_id sc) pd) (enumerate 0 pds)\<rparr>"
    by (auto simp: createScratchCardWithPrizes_def split: sum.splits)
  from v obtain t where t: "validate_each 0 pds = Inr t" and le: "t \<le> 100"
    by (auto simp: validatePrizesData_def split: if_splits sum.splits)
  from validate_each_foldl [OF t] le d' show ?thesis by simp
qed

lemma createScratchCardWithPrizes_refuses:
  "fst (createScratchCardWithPrizes (ex_card\<lparr>sc_id := ''c2''\<rparr>)
          [ex_prize_data\<lparr>pd_probability := 100\<rparr>, ex_prize_data] (\<lambda>k. ''p9'') ex_db)
     = Inl ProbabilitySumExceeds100
   \<and> fst (createScratchCardWithPrizes (ex_card\<lparr>sc_id := ''c2''\<rparr>)
          [ex_prize_data\<lparr>pd_probability := 2 / 10\<rparr>,
           ex_prize_data\<lparr>pd_probability := 839 / 10\<rparr>,
           ex_prize_data\<lparr>pd_probability := 159 / 10\<rparr>] (\<lambda>k. ''p9'') ex_db)
     = Inl ProbabilitySumExceeds100
   \<and> fadd (fadd (double_of (2 / 10)) (double_of (839 / 10))) (double_of (159 / 10))
     = 7036874417766401 / 70368744177664"
  by code_simp

text \<open>
  Claim C9. The claim has every operation on prizes keep the sum of a product's
  active probabilities at most 100. Only the creation of a card checks the sum;
  \<open>addPrizeToScratchCard\<close> and \<open>updatePrize\<close> validate the single probability alone.
  On a card whose one active prize has probability 100, adding a valid prize of
  probability 50 succeeds and leaves the sum at 150; on a card with prizes of 60 and
  40, updating the second to 100 succeeds and leaves the sum at 160.
\<close>

theorem adding_or_updating_a_prize_breaks_the_sum:
  "active_probability_sum ''c1'' ex_db_prize = 100
   \<and> validatePrizeData ex_prize_data = Inr ()
   \<and> (case addPrizeToScratchCard ''c1'' ex_prize_data ''p9'' ex_db_prize of
        (res, d') \<Rightarrow> map_sum id prize_id res = Inr ''p9''
                     \<and> active_probability_sum ''c1'' d' = 150)
   \<and> (case updatePrize ''p2''
             \<lparr>pu_name = None, pu_kind = None, pu_value = None, pu_product_name = None,
              pu_redemption_value = None, pu_probability = Some 100, pu_is_active = None\<rparr>
             (ex_db_prize\<lparr>prizes := [ex_prize\<lparr>probability := 60\<rparr>,
                                       ex_prize\<lparr>prize_id := ''p2'', probability := 40\<rparr>]\<rparr>) of
        (res, d') \<Rightarrow> map_sum id prize_id res = Inr ''p2''
                     \<and> active_probability_sum ''c1'' d' = 160)"
  by (simp add: admin_defs ex_defs' ex_prize_data_def)

end
